theory Spec2Isabelle
  imports Complex_Main
begin

section \<open>Python values\<close>

text \<open>
  The embedding follows \<^verbatim>\<open>src/simple_webagent/websearch/web_search.py\<close>.
  A call that may raise returns an \<open>outcome\<close>: \<open>Raises msg\<close> carries \<open>str(ex)\<close>,
  \<open>Returns v\<close> the value. Python strings are modelled as \<open>string\<close>; a character
  stands for a code point below 256. The \<open>print\<close> calls of the source write a log
  line to stdout and are left out.
\<close>

datatype 'a outcome = Raises string | Returns 'a

datatype pyval =
    PyNone
  | PyInt int
  | PyStr string
  | PyList "pyval list"
  | PyDict "(string \<times> pyval) list"

text \<open>A dict is an association list in insertion order; assigning to a key that is
  already there replaces its value in place, as Python does.\<close>

fun dict_set :: "(string \<times> pyval) list \<Rightarrow> string \<Rightarrow> pyval \<Rightarrow> (string \<times> pyval) list" where
  "dict_set [] k v = [(k, v)]"
| "dict_set ((k', v') # d) k v = (if k' = k then (k, v) # d else (k', v') # dict_set d k v)"

definition dict_keys :: "(string \<times> pyval) list \<Rightarrow> string list" where
  "dict_keys d = map fst d"

definition dict_get :: "(string \<times> pyval) list \<Rightarrow> string \<Rightarrow> pyval option" where
  "dict_get d k = map_of d k"

subsection \<open>Strings\<close>

definition nl :: string where
  "nl = [CHR 0x0A]"

text \<open>\<open>str.isspace\<close> on the code points below 256; \<open>re\<close>'s \<open>\s\<close> on a \<open>str\<close>
  pattern and \<open>str.strip()\<close> both use it.\<close>

definition is_space :: "char \<Rightarrow> bool" where
  "is_space c = (c \<in> set [CHR 0x09, CHR 0x0A, CHR 0x0B, CHR 0x0C, CHR 0x0D,
                           CHR 0x1C, CHR 0x1D, CHR 0x1E, CHR 0x1F, CHR 0x20,
                           CHR 0x85, CHR 0xA0])"

definition strip :: "string \<Rightarrow> string" where
  "strip s = rev (dropWhile is_space (rev (dropWhile is_space s)))"

text \<open>\<open>str.lower()\<close>, on the ASCII letters. The source only looks for the ASCII
  substrings \<open>text/html\<close> and \<open><html\<close> in a lowered string.\<close>

definition lower_char :: "char \<Rightarrow> char" where
  "lower_char c =
     (case map_of (zip ''ABCDEFGHIJKLMNOPQRSTUVWXYZ'' ''abcdefghijklmnopqrstuvwxyz'') c of
        None \<Rightarrow> c
      | Some l \<Rightarrow> l)"

definition lower :: "string \<Rightarrow> string" where
  "lower s = map lower_char s"

fun starts_with :: "string \<Rightarrow> string \<Rightarrow> bool" where
  "starts_with s [] = True"
| "starts_with [] (p # ps) = False"
| "starts_with (c # cs) (p # ps) = (c = p \<and> starts_with cs ps)"

text \<open>\<open>p in s\<close> on strings.\<close>

fun contains :: "string \<Rightarrow> string \<Rightarrow> bool" where
  "contains [] p = (p = [])"
| "contains (c # cs) p = (starts_with (c # cs) p \<or> contains cs p)"

text \<open>\<open>s.split("/")\<close>: always at least one component.\<close>

fun split_slash :: "string \<Rightarrow> string list" where
  "split_slash [] = [[]]"
| "split_slash (c # cs) =
     (if c = CHR ''/'' then [] # split_slash cs
      else (case split_slash cs of
              [] \<Rightarrow> [[c]]
            | w # ws \<Rightarrow> (c # w) # ws))"

text \<open>\<open>s.replace("www.", "")\<close>: every occurrence, left to right, without overlap.\<close>

function replace_www :: "string \<Rightarrow> string" where
  "replace_www [] = []"
| "replace_www (c # cs) =
     (if starts_with (c # cs) ''www.'' then replace_www (drop 3 cs)
      else c # replace_www cs)"
  by pat_completeness auto
termination
  by (relation "measure length") auto

text \<open>\<open>str(n)\<close> for an integer.\<close>

definition digit_char :: "nat \<Rightarrow> char" where
  "digit_char d = ''0123456789'' ! d"

function str_nat :: "nat \<Rightarrow> string" where
  "str_nat n = (if n < 10 then [digit_char n] else str_nat (n div 10) @ [digit_char (n mod 10)])"
  by pat_completeness auto
termination
  by (relation "measure id") auto

declare str_nat.simps [simp del]

definition str_int :: "int \<Rightarrow> string" where
  "str_int i = (if i < 0 then CHR ''-'' # str_nat (nat (- i)) else str_nat (nat i))"

text \<open>\<open>sep.join(xs)\<close>.\<close>

fun join :: "string \<Rightarrow> string list \<Rightarrow> string" where
  "join sep [] = []"
| "join sep [x] = x"
| "join sep (x # y # ys) = x @ sep @ join sep (y # ys)"

subsection \<open>The two regular-expression substitutions\<close>

text \<open>
  \<^verbatim>\<open>re.sub(r"<[^>]+>", " ", html)\<close>. At a \<open><\<close> the pattern needs one or more
  characters other than \<open>>\<close> and then a \<open>>\<close>; the class also matches \<open><\<close> and
  newlines. The match is replaced by one space and the scan goes on behind it. Where
  the pattern does not match (\<open><>\<close>, or no \<open>>\<close> follows) the character is copied.
\<close>

function sub_tags :: "string \<Rightarrow> string" where
  "sub_tags [] = []"
| "sub_tags (c # cs) =
     (if c = CHR ''<''
         \<and> takeWhile (\<lambda>x. x \<noteq> CHR ''>'') cs \<noteq> []
         \<and> dropWhile (\<lambda>x. x \<noteq> CHR ''>'') cs \<noteq> []
      then CHR '' '' # sub_tags (tl (dropWhile (\<lambda>x. x \<noteq> CHR ''>'') cs))
      else c # sub_tags cs)"
  by pat_completeness auto
termination
  by (relation "measure length")
     (auto simp: less_Suc_eq_le intro: le_trans [OF diff_le_self length_dropWhile_le])

text \<open>\<^verbatim>\<open>re.sub(r"\s+", " ", s)\<close>: every run of whitespace becomes one space.\<close>

function collapse_ws :: "string \<Rightarrow> string" where
  "collapse_ws [] = []"
| "collapse_ws (c # cs) =
     (if is_space c then CHR '' '' # collapse_ws (dropWhile is_space cs)
      else c # collapse_ws cs)"
  by pat_completeness auto
termination
  by (relation "measure length")
     (auto simp: less_Suc_eq_le length_dropWhile_le)

text \<open>The naive fallback of both functions: strip the tags, collapse the whitespace,
  strip the ends.\<close>

definition naive_text :: "string \<Rightarrow> string" where
  "naive_text html = strip (collapse_ws (sub_tags html))"

section \<open>Configuration and collaborators\<close>

text \<open>An \<open>httpx.Response\<close>, as far as the two functions read it. The same class
  answers the provider call and the page fetches.\<close>

type_synonym meta = "string \<rightharpoonup> string"

type_synonym json_body = "string \<rightharpoonup> meta list"

record response =
  status_code :: int
  headers :: "string \<rightharpoonup> string"
  resp_text :: string
  resp_json :: "json_body outcome"

text \<open>
  What the functions read from outside: the two keys taken from the process
  environment when the module is loaded, the clock (\<open>time.time()\<close> at entry and on
  the way out), the rate limiter's \<open>hit\<close>, the provider's answer to a POST (by
  endpoint, headers and payload), the answer to the GET of a page (with
  \<open>return_exceptions=True\<close> a failed fetch is a value), \<open>trafilatura.extract\<close>,
  \<open>dateparser.parse(s, fuzzy=True).strftime("%Y-%m-%d")\<close>, and
  \<open>datetime.now().isoformat()\<close> for the item at a position.
\<close>

record env =
  SERPER_API_KEY :: string
  SERPER_API_KEY_FALLBACK :: string
  time_start :: real
  time_exit :: real
  limiter_hit :: "bool outcome"
  client_post :: "string \<Rightarrow> (string \<times> string) list \<Rightarrow> (string \<times> pyval) list \<Rightarrow> response outcome"
  client_get :: "string \<Rightarrow> response outcome"
  trafilatura_extract :: "string \<Rightarrow> string option \<Rightarrow> string option outcome"
  dateparser_parse :: "string \<Rightarrow> string outcome"
  now_isoformat :: "nat \<Rightarrow> string"

definition SERPER_SEARCH_ENDPOINT :: string where
  "SERPER_SEARCH_ENDPOINT = ''https://google.serper.dev/search''"

definition SERPER_NEWS_ENDPOINT :: string where
  "SERPER_NEWS_ENDPOINT = ''https://google.serper.dev/news''"

definition SERPER_LOCATION :: string where
  "SERPER_LOCATION = ''France''"

definition SERPER_GL :: string where
  "SERPER_GL = ''fr''"

definition SERPER_HL :: string where
  "SERPER_HL = ''fr''"

definition build_serper_headers :: "string \<Rightarrow> (string \<times> string) list" where
  "build_serper_headers api_key = [(''X-API-KEY'', api_key), (''Content-Type'', ''application/json'')]"

text \<open>\<open>x if x else d\<close> (and \<open>x or d\<close>) for an optional string: \<open>None\<close> and the empty
  string are both false.\<close>

definition or_else :: "string option \<Rightarrow> string \<Rightarrow> string" where
  "or_else x d = (case x of None \<Rightarrow> d | Some v \<Rightarrow> if v = [] then d else v)"

text \<open>\<open>meta.get(k, d)\<close>.\<close>

definition get_str :: "meta \<Rightarrow> string \<Rightarrow> string \<Rightarrow> string" where
  "get_str m k d = (case m k of None \<Rightarrow> d | Some v \<Rightarrow> v)"

definition key_error :: "string \<Rightarrow> string" where
  "key_error k = [CHR 0x27] @ k @ [CHR 0x27]"

definition sq :: string where
  "sq = [CHR 0x27]"

text \<open>Modelled from the spec: \<open>analytics.record_request\<close> is not among the sources; the
  spec has it persist the duration and the result count of a request. A call is
  logged with its two arguments, in order, and returns. The count is optional because
  \<open>search_web\<close> passes its argument \<open>num_results\<close> as it came on one path.\<close>

type_synonym record_call = "real \<times> int option"

definition duration :: "env \<Rightarrow> real" where
  "duration e = time_exit e - time_start e"

subsection \<open>Credential chain (the "Prepare key order" block of both functions)\<close>

definition truthy :: "string option \<Rightarrow> bool" where
  "truthy x = (case x of None \<Rightarrow> False | Some v \<Rightarrow> v \<noteq> [])"

definition primary_keys :: "env \<Rightarrow> string option \<Rightarrow> string list" where
  "primary_keys e api_key =
     (if truthy api_key then [the api_key]
      else if SERPER_API_KEY e \<noteq> [] then [SERPER_API_KEY e]
      else [])"

definition fb_key :: "env \<Rightarrow> string option \<Rightarrow> string" where
  "fb_key e fallback_api_key = or_else fallback_api_key (SERPER_API_KEY_FALLBACK e)"

definition keys_in_order :: "env \<Rightarrow> string option \<Rightarrow> string option \<Rightarrow> bool \<Rightarrow> string list" where
  "keys_in_order e api_key fallback_api_key use_fallback =
     (if use_fallback \<and> fb_key e fallback_api_key \<noteq> [] then
        (if fb_key e fallback_api_key \<in> set (primary_keys e api_key) then primary_keys e api_key
         else primary_keys e api_key @ [fb_key e fallback_api_key])
      else primary_keys e api_key)"

subsection \<open>Result count\<close>

text \<open>\<open>search_web\<close>: \<open>None\<close> becomes 4, then \<open>max(1, min(20, num_results))\<close>.\<close>

definition clamp_num_results :: "int option \<Rightarrow> int" where
  "clamp_num_results num_results =
     max 1 (min 20 (case num_results of None \<Rightarrow> 4 | Some n \<Rightarrow> n))"

text \<open>\<open>search_web_structured\<close>: \<open>fetch_num = max(1, min(20, num_results or 4))\<close>;
  \<open>or\<close> takes 4 for \<open>None\<close> and for 0.\<close>

definition clamp_fetch_num :: "int option \<Rightarrow> int" where
  "clamp_fetch_num num_results =
     max 1 (min 20 (case num_results of None \<Rightarrow> 4 | Some n \<Rightarrow> if n = 0 then 4 else n))"

definition valid_search_type :: "string \<Rightarrow> string" where
  "valid_search_type search_type =
     (if search_type \<in> set [''search'', ''news''] then search_type else ''search'')"

subsection \<open>Provider request with fallback\<close>

definition fallback_statuses :: "int set" where
  "fallback_statuses = {400, 401, 403, 429, 402, 500, 502, 503, 504}"

definition endpoint_of :: "string \<Rightarrow> string" where
  "endpoint_of search_type =
     (if search_type = ''news'' then SERPER_NEWS_ENDPOINT else SERPER_SEARCH_ENDPOINT)"

definition payload :: "string \<Rightarrow> int \<Rightarrow> string \<Rightarrow> (string \<times> pyval) list" where
  "payload query num search_type =
     (let p = [(''q'', PyStr query), (''num'', PyInt num), (''location'', PyStr SERPER_LOCATION),
               (''gl'', PyStr SERPER_GL), (''hl'', PyStr SERPER_HL)]
      in if search_type = ''news''
         then dict_set (dict_set p ''type'' (PyStr ''news'')) ''page'' (PyInt 1)
         else p)"

text \<open>
  The loop \<open>for idx, key in enumerate(keys_in_order)\<close>, the same in both functions.
  \<open>n\<close> is \<open>len(keys_in_order)\<close>, \<open>post\<close> the request with the headers of a key. The
  result is \<open>resp\<close>, \<open>last_error\<close> and the keys that were posted, in order.
\<close>

fun provider_loop ::
  "(string \<Rightarrow> response outcome) \<Rightarrow> bool \<Rightarrow> nat \<Rightarrow> nat \<Rightarrow> string list \<Rightarrow> string option
     \<Rightarrow> response option \<times> string option \<times> string list" where
  "provider_loop post use_fallback n idx [] last_error = (None, last_error, [])"
| "provider_loop post use_fallback n idx (key # keys) last_error =
     (case post key of
        Returns r \<Rightarrow>
          if status_code r = 200 then (Some r, last_error, [key])
          else if \<not> use_fallback \<or> int idx = int n - 1 then (Some r, last_error, [key])
          else if status_code r \<notin> fallback_statuses then (Some r, last_error, [key])
          else (case provider_loop post use_fallback n (Suc idx) keys last_error of
                  (resp, err, posted) \<Rightarrow> (resp, err, key # posted))
      | Raises ex \<Rightarrow>
          if \<not> use_fallback \<or> int idx = int n - 1 then (None, Some ex, [key])
          else (case provider_loop post use_fallback n (Suc idx) keys (Some ex) of
                  (resp, err, posted) \<Rightarrow> (resp, err, key # posted)))"

definition provider_request ::
  "env \<Rightarrow> string \<Rightarrow> int \<Rightarrow> string \<Rightarrow> string list \<Rightarrow> bool
     \<Rightarrow> response option \<times> string option \<times> string list" where
  "provider_request e query num search_type keys use_fallback =
     provider_loop
       (\<lambda>key. client_post e (endpoint_of search_type) (build_serper_headers key)
                 (payload query num search_type))
       use_fallback (length keys) 0 keys None"


section \<open>Content extraction\<close>

text \<open>
  \<open>_robust_extract_main_text(html, url)\<close>. \<open>html\<close> is a \<open>str\<close> here, so the
  \<open>isinstance\<close> test passes. \<open>trafilatura.extract\<close> is called with \<open>url or None\<close>;
  when it raises, or returns \<open>None\<close> or an empty string, \<open>text\<close> is empty. The two
  \<open>re.sub\<close> calls have constant patterns and a \<open>str\<close> argument, so the handler
  around them has nothing to catch.
\<close>

definition robust_extract_main_text :: "env \<Rightarrow> string \<Rightarrow> string \<Rightarrow> string outcome" where
  "robust_extract_main_text e html url =
     (if strip html = [] then Returns []
      else
        (let text = (case trafilatura_extract e html (if url = [] then None else Some url) of
                       Raises ex \<Rightarrow> []
                     | Returns None \<Rightarrow> []
                     | Returns (Some t) \<Rightarrow> t)
         in if text \<noteq> [] \<and> strip text \<noteq> [] then Returns (strip text)
            else Returns (naive_text html)))"

definition content_type_of :: "response \<Rightarrow> string" where
  "content_type_of r = lower (get_str (headers r) ''Content-Type'' [])"

text \<open>The gate of both functions: \<open>"text/html" in content_type or "<html" in
  response.text[:1000].lower()\<close>.\<close>

definition looks_like_html :: "response \<Rightarrow> bool" where
  "looks_like_html r =
     (contains (content_type_of r) ''text/html'' \<or> contains (lower (take 1000 (resp_text r))) ''<html'')"

section \<open>The plain-text function \<open>search_web\<close>\<close>

datatype exit_site =
    No_api_key
  | Rate_limited
  | Request_failed
  | Api_status
  | No_results
  | No_content
  | Success
  | Exception_handler

text \<open>What a call leaves behind: the value it returns, the \<open>return\<close> statement it
  left through, and the calls of \<open>record_request\<close> it made, in order.\<close>

record 'a call_result =
  returned :: 'a
  exit_site :: exit_site
  recorded :: "record_call list"

text \<open>\<open>body\<close> of one fetched page: \<open>None\<close> when the gate rejects it or the extractor
  raises.\<close>

definition search_web_body :: "env \<Rightarrow> meta \<Rightarrow> response \<Rightarrow> string option" where
  "search_web_body e meta response =
     (if looks_like_html response then
        (case robust_extract_main_text e (resp_text response) (get_str meta ''link'' []) of
           Raises ex \<Rightarrow> None
         | Returns b \<Rightarrow> Some b)
      else None)"

text \<open>The date of a news block: \<open>meta.get("date", "")\<close>, parsed when it is not empty;
  \<open>"Unknown"\<close> when it is empty or the parser raises.\<close>

definition news_date_iso :: "env \<Rightarrow> meta \<Rightarrow> string" where
  "news_date_iso e meta =
     (let date_str = get_str meta ''date'' []
      in if date_str \<noteq> [] then
           (case dateparser_parse e date_str of
              Raises ex \<Rightarrow> ''Unknown''
            | Returns date_iso \<Rightarrow> date_iso)
         else ''Unknown'')"

text \<open>The formatted block of one item. \<open>meta['title']\<close> and \<open>meta['link']\<close> raise
  \<open>KeyError\<close> when the key is missing, \<open>split("/")[2]\<close> raises \<open>IndexError\<close> when
  the link has fewer than two slashes.\<close>

definition search_web_chunk :: "env \<Rightarrow> string \<Rightarrow> meta \<Rightarrow> string \<Rightarrow> string outcome" where
  "search_web_chunk e search_type meta body =
     (if search_type = ''news'' then
        (let date_iso = news_date_iso e meta
         in case meta ''title'' of
              None \<Rightarrow> Raises (key_error ''title'')
            | Some title \<Rightarrow>
                (case meta ''link'' of
                   None \<Rightarrow> Raises (key_error ''link'')
                 | Some link \<Rightarrow>
                     Returns (''## '' @ title @ nl
                       @ ''**Source:** '' @ get_str meta ''source'' ''Unknown'' @ ''   ''
                       @ ''**Date:** '' @ date_iso @ nl
                       @ ''**URL:** '' @ link @ nl @ nl
                       @ strip body @ nl)))
      else
        (case meta ''link'' of
           None \<Rightarrow> Raises (key_error ''link'')
         | Some link \<Rightarrow>
             (case split_slash link of
                a # b # host # rest \<Rightarrow>
                  (case meta ''title'' of
                     None \<Rightarrow> Raises (key_error ''title'')
                   | Some title \<Rightarrow>
                       Returns (''## '' @ title @ nl
                         @ ''**Domain:** '' @ replace_www host @ nl
                         @ ''**URL:** '' @ link @ nl @ nl
                         @ strip body @ nl))
              | _ \<Rightarrow> Raises ''list index out of range'')))"

text \<open>The loop \<open>for meta, response in zip(results, responses)\<close> with its two
  accumulators \<open>chunks\<close> and \<open>successful_extractions\<close>. A failed fetch and an
  empty \<open>body\<close> are a \<open>continue\<close>; an exception of the formatting leaves the loop.\<close>

fun search_web_loop ::
  "env \<Rightarrow> string \<Rightarrow> (meta \<times> response outcome) list \<Rightarrow> string list \<Rightarrow> nat
     \<Rightarrow> (string list \<times> nat) outcome" where
  "search_web_loop e search_type [] chunks successful_extractions =
     Returns (chunks, successful_extractions)"
| "search_web_loop e search_type ((meta, fetched) # rest) chunks successful_extractions =
     (case fetched of
        Raises ex \<Rightarrow> search_web_loop e search_type rest chunks successful_extractions
      | Returns response \<Rightarrow>
          (case search_web_body e meta response of
             None \<Rightarrow> search_web_loop e search_type rest chunks successful_extractions
           | Some body \<Rightarrow>
               if body = [] then search_web_loop e search_type rest chunks successful_extractions
               else
                 (case search_web_chunk e search_type meta body of
                    Raises ex \<Rightarrow> Raises ex
                  | Returns chunk \<Rightarrow>
                      search_web_loop e search_type rest (chunks @ [chunk])
                        (Suc successful_extractions))))"

text \<open>\<open>urls = [r["link"] for r in results]\<close>: \<open>KeyError\<close> at the first hit without a
  link.\<close>

fun links_of :: "meta list \<Rightarrow> string list outcome" where
  "links_of [] = Returns []"
| "links_of (m # ms) =
     (case m ''link'' of
        None \<Rightarrow> Raises (key_error ''link'')
      | Some l \<Rightarrow> (case links_of ms of Raises ex \<Rightarrow> Raises ex | Returns ls \<Rightarrow> Returns (l # ls)))"

definition json_hits :: "json_body \<Rightarrow> string \<Rightarrow> meta list" where
  "json_hits body search_type =
     (case body (if search_type = ''news'' then ''news'' else ''organic'') of
        None \<Rightarrow> []
      | Some hits \<Rightarrow> hits)"


text \<open>The part of \<open>search_web\<close> behind a provider answer with status 200:
  \<open>results\<close> is the hit list taken from its JSON body.\<close>

definition search_web_results ::
  "env \<Rightarrow> string \<Rightarrow> string \<Rightarrow> int \<Rightarrow> meta list \<Rightarrow> string call_result outcome" where
  "search_web_results e query search_type num_results results =
     (if results = [] then
        Returns \<lparr>returned = ''No '' @ search_type @ '' results found for query: '' @ sq @ query @ sq
                     @ ''. Try a different search term or search type.'',
                 exit_site = No_results,
                 recorded = [(duration e, Some num_results)]\<rparr>
      else
        (case links_of results of
           Raises ex \<Rightarrow> Raises ex
         | Returns urls \<Rightarrow>
             (case search_web_loop e search_type (zip results (map (client_get e) urls)) [] 0 of
                Raises ex \<Rightarrow> Raises ex
              | Returns (chunks, successful_extractions) \<Rightarrow>
                  if chunks = [] then
                    Returns \<lparr>returned = ''Found '' @ str_int (int (length results)) @ '' '' @ search_type
                                 @ '' results for '' @ sq @ query @ sq
                                 @ '', but couldn'' @ sq @ ''t extract readable content from any of them. ''
                                 @ ''The websites might be blocking automated access.'',
                             exit_site = No_content,
                             recorded = [(duration e, Some num_results)]\<rparr>
                  else
                    Returns \<lparr>returned = ''Successfully extracted content from ''
                                 @ str_int (int successful_extractions) @ '' out of ''
                                 @ str_int (int (length results)) @ '' '' @ search_type
                                 @ '' results for query: '' @ sq @ query @ sq @ nl @ nl @ ''---'' @ nl @ nl
                                 @ join (nl @ ''---'' @ nl) chunks,
                             exit_site = Success,
                             recorded = [(duration e, Some num_results)]\<rparr>)))"

text \<open>The body of the \<open>try\<close> of \<open>search_web\<close>. An \<open>httpx.Response\<close> defines neither
  \<open>__bool__\<close> nor \<open>__len__\<close>, so \<open>not resp\<close> holds for \<open>None\<close> only.\<close>

definition search_web_try ::
  "env \<Rightarrow> string \<Rightarrow> string \<Rightarrow> int \<Rightarrow> string list \<Rightarrow> bool \<Rightarrow> string call_result outcome" where
  "search_web_try e query search_type num_results keys use_fallback =
     (case limiter_hit e of
        Raises ex \<Rightarrow> Raises ex
      | Returns allowed \<Rightarrow>
          if \<not> allowed then
            Returns \<lparr>returned = ''Error: Rate limit exceeded. Please try again later (limit: 360 requests per hour).'',
                     exit_site = Rate_limited,
                     recorded = [(duration e, Some num_results)]\<rparr>
          else
            (case provider_request e query num_results search_type keys use_fallback of
               (None, last_error, posted) \<Rightarrow>
                 Returns \<lparr>returned = ''Error: Search request failed. Details: ''
                              @ or_else last_error ''unknown error'' @ ''.'',
                          exit_site = Request_failed,
                          recorded = [(duration e, Some num_results)]\<rparr>
             | (Some resp, last_error, posted) \<Rightarrow>
                 if status_code resp \<noteq> 200 then
                   Returns \<lparr>returned = ''Error: Search API returned status '' @ str_int (status_code resp)
                                @ ''. Please check your API key and try again.'',
                            exit_site = Api_status,
                            recorded = [(duration e, Some num_results)]\<rparr>
                 else
                   (case resp_json resp of
                      Raises ex \<Rightarrow> Raises ex
                    | Returns body \<Rightarrow>
                        search_web_results e query search_type num_results (json_hits body search_type))))"

text \<open>\<open>search_web\<close>. Without a key it records \<open>0.0\<close> and the argument \<open>num_results\<close>
  as it came. The handler of the \<open>try\<close> computes \<open>duration\<close> and returns; it makes
  no call of \<open>record_request\<close>.\<close>

definition search_web ::
  "env \<Rightarrow> string \<Rightarrow> string \<Rightarrow> int option \<Rightarrow> string option \<Rightarrow> string option \<Rightarrow> bool
     \<Rightarrow> string call_result" where
  "search_web e query search_type num_results api_key fallback_api_key use_fallback =
     (if keys_in_order e api_key fallback_api_key use_fallback = [] then
        \<lparr>returned = ''Error: No SERPER API key configured. Provide api_key parameter or set ''
                     @ ''SERPER_API_KEY. Optionally set SERPER_API_KEY_FALLBACK for automatic fallback.'',
         exit_site = No_api_key,
         recorded = [(0, num_results)]\<rparr>
      else
        (case search_web_try e query (valid_search_type search_type) (clamp_num_results num_results)
                (keys_in_order e api_key fallback_api_key use_fallback) use_fallback of
           Raises ex \<Rightarrow>
             \<lparr>returned = ''Error occurred while searching: '' @ ex
                          @ ''. Please try again or check your query.'',
              exit_site = Exception_handler,
              recorded = []\<rparr>
         | Returns r \<Rightarrow> r))"

section \<open>The structured function \<open>search_web_structured\<close>\<close>

text \<open>\<open>urls = [it.get("link") for it in serper_items if it.get("link")]\<close>: a hit
  with no link, or an empty one, contributes no URL.\<close>

fun structured_urls :: "meta list \<Rightarrow> string list" where
  "structured_urls [] = []"
| "structured_urls (it # items) =
     (case it ''link'' of
        None \<Rightarrow> structured_urls items
      | Some l \<Rightarrow> if l = [] then structured_urls items else l # structured_urls items)"

definition base_item :: "env \<Rightarrow> string \<Rightarrow> nat \<Rightarrow> meta \<Rightarrow> (string \<times> pyval) list" where
  "base_item e search_type pos meta =
     [(''title'', PyStr (get_str meta ''title'' [])),
      (''url'', PyStr (get_str meta ''link'' [])),
      (''domain'', PyStr []),
      (''date'', PyStr (if search_type = ''news'' then get_str meta ''date'' [] else [])),
      (''source'', PyStr (if search_type = ''news'' then get_str meta ''source'' [] else [])),
      (''status_code'', PyNone),
      (''fetched_at'', PyStr (now_isoformat e pos)),
      (''web_text_for_chunking'', PyStr []),
      (''cleaned_text'', PyStr []),
      (''serper_style_text'', PyStr [])]"

text \<open>\<open>item["url"].split("/")[2].replace("www.", "") if item["url"] else ""\<close>, with
  the \<open>IndexError\<close> caught.\<close>

definition item_domain :: "string \<Rightarrow> string" where
  "item_domain url =
     (if url \<noteq> [] then
        (case split_slash url of
           a # b # host # rest \<Rightarrow> replace_www host
         | _ \<Rightarrow> [])
      else [])"

text \<open>The text stored under \<open>cleaned_text\<close>, or \<open>None\<close> when nothing is stored
  (\<open>cleaned\<close> is empty after the fallback). The fallback runs whenever \<open>cleaned\<close> is
  \<open>None\<close>, empty or blank, also behind a rejected gate.\<close>

definition structured_cleaned :: "env \<Rightarrow> string \<Rightarrow> response \<Rightarrow> string option" where
  "structured_cleaned e url response =
     (let cleaned = (if looks_like_html response then
                       (case robust_extract_main_text e (resp_text response) url of
                          Raises ex \<Rightarrow> None
                        | Returns c \<Rightarrow> Some c)
                     else None);
          cleaned' = (case cleaned of
                        None \<Rightarrow> naive_text (resp_text response)
                      | Some c \<Rightarrow> if c = [] \<or> strip c = [] then naive_text (resp_text response) else c)
      in if cleaned' \<noteq> [] then Some (strip cleaned') else None)"

text \<open>One turn of the loop: the item, whether \<open>successful_extractions\<close> goes up, and
  the block appended to \<open>serper_blocks\<close> (none for a failed fetch).\<close>

definition structured_item ::
  "env \<Rightarrow> string \<Rightarrow> bool \<Rightarrow> nat \<Rightarrow> meta \<Rightarrow> response outcome
     \<Rightarrow> (string \<times> pyval) list \<times> bool \<times> string option" where
  "structured_item e search_type include_html pos meta fetched =
     (let item = base_item e search_type pos meta;
          url = get_str meta ''link'' []
      in case fetched of
           Raises ex \<Rightarrow> (dict_set item ''error'' (PyStr ex), False, None)
         | Returns response \<Rightarrow>
             (let item1 = dict_set item ''status_code'' (PyInt (status_code response));
                  item2 = dict_set item1 ''domain'' (PyStr (item_domain url));
                  item3 = (if include_html then dict_set item2 ''raw_html'' (PyStr (resp_text response))
                           else item2);
                  cleaned = structured_cleaned e url response;
                  item4 = (case cleaned of
                             None \<Rightarrow> item3
                           | Some c \<Rightarrow> dict_set item3 ''cleaned_text'' (PyStr c));
                  serper_block = ''## '' @ get_str meta ''title'' [] @ nl
                    @ ''**Domain:** '' @ item_domain url @ nl
                    @ ''**URL:** '' @ url @ nl @ nl
                    @ (case cleaned of None \<Rightarrow> [] | Some c \<Rightarrow> c) @ nl;
                  item5 = dict_set (dict_set item4 ''web_text_for_chunking'' (PyStr serper_block))
                            ''serper_style_text'' (PyStr serper_block)
              in (item5, cleaned \<noteq> None, Some serper_block)))"

fun structured_loop ::
  "env \<Rightarrow> string \<Rightarrow> bool \<Rightarrow> (meta \<times> response outcome) list
     \<Rightarrow> (string \<times> pyval) list list \<Rightarrow> nat \<Rightarrow> string list
     \<Rightarrow> (string \<times> pyval) list list \<times> nat \<times> string list" where
  "structured_loop e search_type include_html [] results_out successful_extractions serper_blocks =
     (results_out, successful_extractions, serper_blocks)"
| "structured_loop e search_type include_html ((meta, fetched) # rest) results_out
       successful_extractions serper_blocks =
     (case structured_item e search_type include_html (length results_out) meta fetched of
        (item, extracted, block) \<Rightarrow>
          structured_loop e search_type include_html rest (results_out @ [item])
            (if extracted then Suc successful_extractions else successful_extractions)
            (case block of None \<Rightarrow> serper_blocks | Some b \<Rightarrow> serper_blocks @ [b]))"


definition failure_report ::
  "string \<Rightarrow> string \<Rightarrow> string \<Rightarrow> string \<Rightarrow> (string \<times> pyval) list" where
  "failure_report query search_type summary err =
     [(''query'', PyStr query),
      (''search_type'', PyStr search_type),
      (''results'', PyList []),
      (''summary'', PyStr summary),
      (''error'', PyStr err)]"

text \<open>The part of \<open>search_web_structured\<close> behind a provider answer with status 200.
  The responses are paired with the hits by \<open>zip\<close>, which stops at the shorter
  list.\<close>

definition structured_results ::
  "env \<Rightarrow> string \<Rightarrow> string \<Rightarrow> int \<Rightarrow> bool \<Rightarrow> meta list
     \<Rightarrow> (string \<times> pyval) list call_result" where
  "structured_results e query search_type fetch_num include_html serper_items =
     (if serper_items = [] then
        \<lparr>returned = failure_report query search_type
                       (''No '' @ search_type @ '' results for '' @ sq @ query @ sq) ''no_results'',
         exit_site = No_results,
         recorded = [(duration e, Some fetch_num)]\<rparr>
      else
        (case structured_loop e search_type include_html
                (zip serper_items (map (client_get e) (structured_urls serper_items))) [] 0 [] of
           (results_out, successful_extractions, serper_blocks) \<Rightarrow>
             \<lparr>returned =
                 [(''query'', PyStr query),
                  (''search_type'', PyStr search_type),
                  (''results'', PyList (map PyDict results_out)),
                  (''serper_text_joined'', PyStr (join (nl @ ''---'' @ nl) serper_blocks)),
                  (''summary'', PyStr (''Fetched '' @ str_int (int (length results_out))
                      @ '' results; successfully extracted content from ''
                      @ str_int (int successful_extractions)))],
               exit_site = Success,
               recorded = [(duration e, Some fetch_num)]\<rparr>))"

definition structured_try ::
  "env \<Rightarrow> string \<Rightarrow> string \<Rightarrow> int \<Rightarrow> bool \<Rightarrow> string list \<Rightarrow> bool
     \<Rightarrow> (string \<times> pyval) list call_result outcome" where
  "structured_try e query search_type fetch_num include_html keys use_fallback =
     (case limiter_hit e of
        Raises ex \<Rightarrow> Raises ex
      | Returns allowed \<Rightarrow>
          if \<not> allowed then
            Returns \<lparr>returned = failure_report query search_type ''Rate limit exceeded''
                                  ''rate_limit_exceeded'',
                     exit_site = Rate_limited,
                     recorded = [(duration e, Some fetch_num)]\<rparr>
          else
            (case provider_request e query fetch_num search_type keys use_fallback of
               (None, last_error, posted) \<Rightarrow>
                 Returns \<lparr>returned = failure_report query search_type
                                       (''Request error: '' @ or_else last_error ''unknown error'')
                                       ''request_failed'',
                          exit_site = Request_failed,
                          recorded = [(duration e, Some fetch_num)]\<rparr>
             | (Some resp, last_error, posted) \<Rightarrow>
                 if status_code resp \<noteq> 200 then
                   Returns \<lparr>returned = failure_report query search_type
                                         (''Search API status '' @ str_int (status_code resp))
                                         (''api_status_'' @ str_int (status_code resp)),
                            exit_site = Api_status,
                            recorded = [(duration e, Some fetch_num)]\<rparr>
                 else
                   (case resp_json resp of
                      Raises ex \<Rightarrow> Raises ex
                    | Returns body \<Rightarrow>
                        Returns (structured_results e query search_type fetch_num include_html
                                   (json_hits body search_type)))))"

text \<open>\<open>search_web_structured\<close>. It has no early return for an empty key list: the
  loop over the keys then makes no request and \<open>resp\<close> stays \<open>None\<close>. The handler
  of the \<open>try\<close> does not call \<open>record_request\<close>, as its comment says.\<close>

definition search_web_structured ::
  "env \<Rightarrow> string \<Rightarrow> string \<Rightarrow> int option \<Rightarrow> bool \<Rightarrow> string option \<Rightarrow> string option \<Rightarrow> bool
     \<Rightarrow> (string \<times> pyval) list call_result" where
  "search_web_structured e query search_type num_results include_html api_key fallback_api_key
       use_fallback =
     (case structured_try e query (valid_search_type search_type) (clamp_fetch_num num_results)
             include_html (keys_in_order e api_key fallback_api_key use_fallback) use_fallback of
        Raises ex \<Rightarrow>
          \<lparr>returned = failure_report query (valid_search_type search_type) (''Error: '' @ ex)
                         ''exception'',
           exit_site = Exception_handler,
           recorded = []\<rparr>
      | Returns r \<Rightarrow> r)"

section \<open>Requests posted by a call\<close>

text \<open>
  The keys with which a call posts to the provider, in order. \<open>provider_request\<close>
  is the only place where either function posts. \<open>search_web\<close> returns before it
  when the key list is empty, and both functions return before it when the limiter
  raises or refuses the call; behind it neither function posts again.
\<close>

definition search_web_posts ::
  "env \<Rightarrow> string \<Rightarrow> string \<Rightarrow> int option \<Rightarrow> string option \<Rightarrow> string option \<Rightarrow> bool
     \<Rightarrow> string list" where
  "search_web_posts e query search_type num_results api_key fallback_api_key use_fallback =
     (if keys_in_order e api_key fallback_api_key use_fallback = [] then []
      else
        (case limiter_hit e of
           Raises ex \<Rightarrow> []
         | Returns allowed \<Rightarrow>
             if \<not> allowed then []
             else snd (snd (provider_request e query (clamp_num_results num_results)
                              (valid_search_type search_type)
                              (keys_in_order e api_key fallback_api_key use_fallback) use_fallback))))"

definition structured_posts ::
  "env \<Rightarrow> string \<Rightarrow> string \<Rightarrow> int option \<Rightarrow> string option \<Rightarrow> string option \<Rightarrow> bool
     \<Rightarrow> string list" where
  "structured_posts e query search_type num_results api_key fallback_api_key use_fallback =
     (case limiter_hit e of
        Raises ex \<Rightarrow> []
      | Returns allowed \<Rightarrow>
          if \<not> allowed then []
          else snd (snd (provider_request e query (clamp_fetch_num num_results)
                           (valid_search_type search_type)
                           (keys_in_order e api_key fallback_api_key use_fallback) use_fallback)))"

section \<open>Notions used by the properties\<close>


text \<open>The resolved keys: the primary key is the argument, else the configured key; the
  fallback key is consulted only when fallback is enabled, and is then the argument,
  else the configured fallback key.\<close>

definition resolved_primary :: "env \<Rightarrow> string option \<Rightarrow> string" where
  "resolved_primary e api_key = or_else api_key (SERPER_API_KEY e)"

definition resolved_fallback :: "env \<Rightarrow> string option \<Rightarrow> bool \<Rightarrow> string" where
  "resolved_fallback e fallback_api_key use_fallback =
     (if use_fallback then fb_key e fallback_api_key else [])"


text \<open>A provider hit with a title and a link of at least three \<open>/\<close>-separated
  components (\<open>scheme://host\<close>), which is what the formatting of \<open>search_web\<close>
  indexes.\<close>

definition well_formed_hit :: "meta \<Rightarrow> bool" where
  "well_formed_hit m =
     (case m ''title'' of
        None \<Rightarrow> False
      | Some title \<Rightarrow>
          (case m ''link'' of
             None \<Rightarrow> False
           | Some link \<Rightarrow> 3 \<le> length (split_slash link)))"

definition link_of :: "meta \<Rightarrow> string" where
  "link_of m = get_str m ''link'' []"

text \<open>A hit and its fetch give \<open>search_web\<close> a non-empty \<open>body\<close>.\<close>

definition yields_content :: "env \<Rightarrow> meta \<times> response outcome \<Rightarrow> bool" where
  "yields_content e p =
     (case snd p of
        Raises ex \<Rightarrow> False
      | Returns response \<Rightarrow>
          (case search_web_body e (fst p) response of
             None \<Rightarrow> False
           | Some body \<Rightarrow> body \<noteq> []))"

section \<open>Concrete inputs\<close>

definition status_response :: "int \<Rightarrow> response" where
  "status_response s =
     \<lparr>status_code = s, headers = Map.empty, resp_text = [], resp_json = Returns Map.empty\<rparr>"



definition html_page :: response where
  "html_page =
     \<lparr>status_code = 200,
      headers = [''Content-Type'' \<mapsto> ''text/html; charset=utf-8''],
      resp_text = ''<html><body><p>Page B</p></body></html>'',
      resp_json = Raises ''Expecting value: line 1 column 1 (char 0)''\<rparr>"

definition plain_page :: response where
  "plain_page =
     \<lparr>status_code = 200,
      headers = [''Content-Type'' \<mapsto> ''text/plain''],
      resp_text = ''plain words'',
      resp_json = Raises ''Expecting value: line 1 column 1 (char 0)''\<rparr>"

definition hits_response :: "meta list \<Rightarrow> response" where
  "hits_response hits =
     \<lparr>status_code = 200, headers = Map.empty, resp_text = [],
      resp_json = Returns [''organic'' \<mapsto> hits, ''news'' \<mapsto> hits]\<rparr>"

definition hit_a :: meta where
  "hit_a = [''title'' \<mapsto> ''A'']"

definition hit_b :: meta where
  "hit_b = [''title'' \<mapsto> ''B'', ''link'' \<mapsto> ''http://b.example/x'']"

definition hit_c :: meta where
  "hit_c = [''title'' \<mapsto> ''C'', ''link'' \<mapsto> ''http://c.example/down'']"

definition hit_news :: meta where
  "hit_news = [''title'' \<mapsto> ''N'', ''link'' \<mapsto> ''http://b.example/x'',
               ''date'' \<mapsto> ''2 hours ago'']"

text \<open>An environment in which the provider gives one fixed answer to every request,
  only \<open>http://b.example/x\<close> can be fetched, and the limiter lets the call pass.\<close>

definition demo_env :: "response outcome \<Rightarrow> env" where
  "demo_env provider =
     \<lparr>SERPER_API_KEY = ''primary'',
      SERPER_API_KEY_FALLBACK = ''secondary'',
      time_start = 100,
      time_exit = 103,
      limiter_hit = Returns True,
      client_post = (\<lambda>endpoint hdrs body. provider),
      client_get = (\<lambda>url. if url = ''http://b.example/x'' then Returns html_page
                          else Raises ''All connection attempts failed''),
      trafilatura_extract = (\<lambda>html url. Returns (Some ''Page B'')),
      dateparser_parse = (\<lambda>s. Returns ''2024-05-01''),
      now_isoformat = (\<lambda>pos. ''2024-05-01T12:00:00'')\<rparr>"


definition open_env :: "response outcome \<Rightarrow> env" where
  "open_env provider = (demo_env provider)\<lparr>client_get := (\<lambda>url. Returns html_page)\<rparr>"

definition hit_untitled :: meta where
  "hit_untitled = [''link'' \<mapsto> ''http://d.example/y'']"

definition no_keys_env :: env where
  "no_keys_env = (demo_env (Raises []))\<lparr>SERPER_API_KEY := [], SERPER_API_KEY_FALLBACK := []\<rparr>"

section \<open>Properties\<close>

subsection \<open>Strings\<close>

lemma naive_text_example:
  "naive_text ''<p>Hello   <b>big</b>  world</p><>'' = ''Hello big world <>''"
  by (simp add: naive_text_def strip_def is_space_def)

lemma string_helpers_example:
  "replace_www ''www.a.www.b'' = ''a.b'' \<and> split_slash ''http://x/y'' = [''http:'', [], ''x'', ''y'']
   \<and> str_int 404 = ''404'' \<and> lower ''Text/HTML'' = ''text/html''
   \<and> contains ''  <html lang'' ''<html'' \<and> \<not> contains ''{}'' ''<html''"
  by (simp add: str_int_def str_nat.simps digit_char_def lower_def lower_char_def)

subsection \<open>Result count\<close>

lemma clamp_num_results_range: "1 \<le> clamp_num_results n \<and> clamp_num_results n \<le> 20"
  by (simp add: clamp_num_results_def split: option.splits)

lemma clamp_fetch_num_range: "1 \<le> clamp_fetch_num n \<and> clamp_fetch_num n \<le> 20"
  by (simp add: clamp_fetch_num_def split: option.splits)

lemma clamp_num_results_examples:
  "clamp_num_results (Some 0) = 1 \<and> clamp_num_results (Some 35) = 20
   \<and> clamp_num_results None = 4 \<and> clamp_fetch_num (Some 35) = 20"
  by (simp add: clamp_num_results_def clamp_fetch_num_def)

text \<open>Both functions keep the effective count within 1..20, and both turn 35 into 20.\<close>

theorem effective_count_in_range:
  "1 \<le> clamp_num_results n \<and> clamp_num_results n \<le> 20
   \<and> 1 \<le> clamp_fetch_num n \<and> clamp_fetch_num n \<le> 20
   \<and> clamp_num_results (Some 35) = 20 \<and> clamp_fetch_num (Some 35) = 20"
  by (simp add: clamp_num_results_def clamp_fetch_num_def split: option.splits)

text \<open>
  C2. The claim has every count outside 1..20 clamped into the range by both
  functions, 0 giving 1. \<open>search_web\<close> does that; \<open>search_web_structured\<close> turns 0
  into 4, because \<open>num_results or 4\<close> takes the default for 0 as for \<open>None\<close>.
\<close>

theorem structured_count_zero:
  "clamp_fetch_num (Some 0) = 4 \<and> clamp_fetch_num (Some 0) \<noteq> 1 \<and> clamp_num_results (Some 0) = 1"
  by (simp add: clamp_fetch_num_def clamp_num_results_def)

subsection \<open>Credential chain\<close>

lemma primary_keys_nonempty:
  "or_else api_key (SERPER_API_KEY e) \<noteq> [] \<Longrightarrow>
     primary_keys e api_key = [or_else api_key (SERPER_API_KEY e)]"
  by (auto simp: primary_keys_def or_else_def truthy_def split: option.splits)

lemma primary_keys_empty:
  "or_else api_key (SERPER_API_KEY e) = [] \<Longrightarrow> primary_keys e api_key = []"
  by (auto simp: primary_keys_def or_else_def truthy_def split: option.splits if_splits)

lemma keys_in_order_no_primary:
  "or_else api_key (SERPER_API_KEY e) = [] \<Longrightarrow>
     keys_in_order e api_key fallback_api_key use_fallback =
       (if use_fallback \<and> fb_key e fallback_api_key \<noteq> [] then [fb_key e fallback_api_key] else [])"
  by (simp add: keys_in_order_def primary_keys_empty)


lemma provider_loop_single:
  "provider_loop post use_fallback (Suc 0) 0 [k] None =
     (case post k of Returns r \<Rightarrow> (Some r, None, [k]) | Raises ex \<Rightarrow> (None, Some ex, [k]))"
  by (simp split: outcome.splits)

lemma provider_loop_posted_le:
  "length (snd (snd (provider_loop post u n idx keys le))) \<le> length keys
   \<and> set (snd (snd (provider_loop post u n idx keys le))) \<subseteq> set keys"
proof (induction keys arbitrary: idx le)
  case Nil
  then show ?case by simp
next
  case (Cons k ks)
  show ?case
  proof (cases "post k")
    case (Raises ex)
    with Cons.IH [of "Suc idx" "Some ex"] show ?thesis
      by (auto split: prod.splits)
  next
    case (Returns r)
    with Cons.IH [of "Suc idx" le] show ?thesis
      by (auto split: prod.splits)
  qed
qed

lemma provider_request_posted_le:
  "length (snd (snd (provider_request e query num search_type keys u))) \<le> length keys
   \<and> set (snd (snd (provider_request e query num search_type keys u))) \<subseteq> set keys"
  unfolding provider_request_def by (rule provider_loop_posted_le)

lemma posts_within_chain:
  "length (search_web_posts e query search_type num_results api_key fallback_api_key use_fallback)
     \<le> length (keys_in_order e api_key fallback_api_key use_fallback)
   \<and> set (search_web_posts e query search_type num_results api_key fallback_api_key use_fallback)
     \<subseteq> set (keys_in_order e api_key fallback_api_key use_fallback)
   \<and> length (structured_posts e query search_type num_results api_key fallback_api_key use_fallback)
     \<le> length (keys_in_order e api_key fallback_api_key use_fallback)
   \<and> set (structured_posts e query search_type num_results api_key fallback_api_key use_fallback)
     \<subseteq> set (keys_in_order e api_key fallback_api_key use_fallback)"
  using provider_request_posted_le
    [of e query "clamp_num_results num_results" "valid_search_type search_type"
        "keys_in_order e api_key fallback_api_key use_fallback" use_fallback]
    provider_request_posted_le
    [of e query "clamp_fetch_num num_results" "valid_search_type search_type"
        "keys_in_order e api_key fallback_api_key use_fallback" use_fallback]
  by (auto simp: search_web_posts_def structured_posts_def split: outcome.splits)

text \<open>
  C4, as the claim has it, at one input: no key argument, both configured keys empty,
  fallback enabled. The resolved fallback key is empty, so the claim has a chain of
  exactly one key; the chain is empty.
\<close>

theorem chain_claim_counterexample:
  "resolved_fallback no_keys_env None True = []
   \<and> keys_in_order no_keys_env None None True = []
   \<and> \<not> (if resolved_fallback no_keys_env None True = []
             \<or> resolved_fallback no_keys_env None True = resolved_primary no_keys_env None
          then length (keys_in_order no_keys_env None None True) = 1
          else keys_in_order no_keys_env None None True
                 = [resolved_primary no_keys_env None, resolved_fallback no_keys_env None True])"
  by (simp add: resolved_fallback_def resolved_primary_def keys_in_order_def primary_keys_def
        fb_key_def or_else_def truthy_def no_keys_env_def demo_env_def)

text \<open>
  C4, amended. When the resolved primary key is not empty: if the resolved fallback key
  is empty or equal to the resolved primary key, the chain is the primary key alone, and
  a call of either function posts at most one request to the provider, with that key
  (and exactly one, with that key, once it reaches the key loop); otherwise the chain is
  the primary key followed by the fallback key.
\<close>

theorem keys_in_order_chain:
  assumes "resolved_primary e api_key \<noteq> []"
  shows "keys_in_order e api_key fallback_api_key use_fallback =
           (if resolved_fallback e fallback_api_key use_fallback = []
               \<or> resolved_fallback e fallback_api_key use_fallback = resolved_primary e api_key
            then [resolved_primary e api_key]
            else [resolved_primary e api_key, resolved_fallback e fallback_api_key use_fallback])
       \<and> (resolved_fallback e fallback_api_key use_fallback = []
             \<or> resolved_fallback e fallback_api_key use_fallback = resolved_primary e api_key \<longrightarrow>
            length (search_web_posts e query search_type num_results api_key fallback_api_key
                      use_fallback) \<le> 1
            \<and> set (search_web_posts e query search_type num_results api_key fallback_api_key
                      use_fallback) \<subseteq> {resolved_primary e api_key}
            \<and> length (structured_posts e query search_type num_results api_key fallback_api_key
                      use_fallback) \<le> 1
            \<and> set (structured_posts e query search_type num_results api_key fallback_api_key
                      use_fallback) \<subseteq> {resolved_primary e api_key}
            \<and> snd (snd (provider_request e query num search_type
                   (keys_in_order e api_key fallback_api_key use_fallback) use_fallback))
                = [resolved_primary e api_key])"
proof -
  have p: "primary_keys e api_key = [resolved_primary e api_key]"
    using assms primary_keys_nonempty [of api_key e] by (simp add: resolved_primary_def)
  have chain: "keys_in_order e api_key fallback_api_key use_fallback =
           (if resolved_fallback e fallback_api_key use_fallback = []
               \<or> resolved_fallback e fallback_api_key use_fallback = resolved_primary e api_key
            then [resolved_primary e api_key]
            else [resolved_primary e api_key, resolved_fallback e fallback_api_key use_fallback])"
    by (simp add: keys_in_order_def p resolved_fallback_def)
  have one: "keys_in_order e api_key fallback_api_key use_fallback = [resolved_primary e api_key] \<Longrightarrow>
        snd (snd (provider_request e query num search_type
               (keys_in_order e api_key fallback_api_key use_fallback) use_fallback))
          = [resolved_primary e api_key]"
    by (simp add: provider_request_def split: outcome.splits)
  from chain one
    posts_within_chain [of e query search_type num_results api_key fallback_api_key use_fallback]
  show ?thesis by auto
qed

theorem keys_in_order_chain_witness:
  "keys_in_order (demo_env (Returns (status_response 429))) (Some ''A'') (Some ''A'') True = [''A'']
   \<and> search_web_posts (demo_env (Returns (status_response 429))) ''q'' ''search'' (Some 4)
        (Some ''A'') (Some ''A'') True = [''A'']
   \<and> length (structured_posts (demo_env (Returns (status_response 429))) ''q'' ''search'' (Some 4)
        (Some ''A'') (Some ''A'') True) \<le> 1"
proof -
  let ?e = "demo_env (Returns (status_response 429))"
  have p: "resolved_primary ?e (Some ''A'') = ''A''"
    by (simp add: resolved_primary_def or_else_def)
  have ne: "resolved_primary ?e (Some ''A'') \<noteq> []"
    by (simp add: resolved_primary_def or_else_def)
  have fb: "resolved_fallback ?e (Some ''A'') True = ''A''"
    by (simp add: resolved_fallback_def fb_key_def or_else_def)
  have lim: "limiter_hit ?e = Returns True" by (simp add: demo_env_def)
  from keys_in_order_chain [OF ne, where fallback_api_key="Some ''A''" and use_fallback=True
         and query="''q''" and search_type="''search''" and num_results="Some 4"
         and num="clamp_num_results (Some 4)"]
  have all: "keys_in_order ?e (Some ''A'') (Some ''A'') True = [''A'']
      \<and> length (search_web_posts ?e ''q'' ''search'' (Some 4) (Some ''A'') (Some ''A'') True) \<le> 1
      \<and> set (search_web_posts ?e ''q'' ''search'' (Some 4) (Some ''A'') (Some ''A'') True) \<subseteq> {''A''}
      \<and> length (structured_posts ?e ''q'' ''search'' (Some 4) (Some ''A'') (Some ''A'') True) \<le> 1
      \<and> set (structured_posts ?e ''q'' ''search'' (Some 4) (Some ''A'') (Some ''A'') True) \<subseteq> {''A''}
      \<and> snd (snd (provider_request ?e ''q'' (clamp_num_results (Some 4)) ''search''
               (keys_in_order ?e (Some ''A'') (Some ''A'') True) True)) = [''A'']"
    unfolding p fb by auto
  then have k: "keys_in_order ?e (Some ''A'') (Some ''A'') True = [''A'']"
    and s: "length (structured_posts ?e ''q'' ''search'' (Some 4) (Some ''A'') (Some ''A'') True) \<le> 1"
    and r: "snd (snd (provider_request ?e ''q'' (clamp_num_results (Some 4)) ''search''
               (keys_in_order ?e (Some ''A'') (Some ''A'') True) True)) = [''A'']"
    by blast+
  from k s r lim show ?thesis
    by (simp add: search_web_posts_def valid_search_type_def)
qed

subsection \<open>Fallback policy of the provider request\<close>





lemma provider_loop_404_example:
  "provider_loop (\<lambda>key. Returns (status_response 404)) True 2 0 [''primary'', ''secondary''] None
     = (Some (status_response 404), None, [''primary''])"
  by (simp add: status_response_def fallback_statuses_def)







lemma structured_try_status_example:
  assumes "limiter_hit e = Returns True"
    and "provider_request e query num search_type keys use_fallback = (Some r, err, posted)"
    and "status_code r \<noteq> 200"
  shows "structured_try e query search_type num include_html keys use_fallback =
           Returns \<lparr>returned = failure_report query search_type
                                  (''Search API status '' @ str_int (status_code r))
                                  (''api_status_'' @ str_int (status_code r)),
                    exit_site = Api_status,
                    recorded = [(duration e, Some num)]\<rparr>"
  using assms by (simp add: structured_try_def)

subsection \<open>Calls of the analytics recorder\<close>

lemma search_web_results_recorded:
  assumes "search_web_results e query search_type num results = Returns r"
  shows "recorded r = [(duration e, Some num)] \<and> exit_site r \<in> {No_results, No_content, Success}"
  using assms
  by (auto simp: search_web_results_def split: if_splits outcome.splits prod.splits)

lemma search_web_try_recorded:
  assumes "search_web_try e query search_type num keys use_fallback = Returns r"
  shows "recorded r = [(duration e, Some num)]
         \<and> exit_site r \<in> {Rate_limited, Request_failed, Api_status, No_results, No_content, Success}"
  using assms search_web_results_recorded [of e query search_type num _ r]
  by (auto simp: search_web_try_def split: if_splits outcome.splits prod.splits option.splits)

lemma search_web_recorded:
  "exit_site (search_web e query search_type num_results api_key fallback_api_key use_fallback)
     = No_api_key
   \<and> keys_in_order e api_key fallback_api_key use_fallback = []
   \<and> recorded (search_web e query search_type num_results api_key fallback_api_key use_fallback)
     = [(0, num_results)]
   \<or> exit_site (search_web e query search_type num_results api_key fallback_api_key use_fallback)
     = Exception_handler
   \<and> recorded (search_web e query search_type num_results api_key fallback_api_key use_fallback)
     = []
   \<or> exit_site (search_web e query search_type num_results api_key fallback_api_key use_fallback)
     \<in> {Rate_limited, Request_failed, Api_status, No_results, No_content, Success}
   \<and> recorded (search_web e query search_type num_results api_key fallback_api_key use_fallback)
     = [(duration e, Some (clamp_num_results num_results))]"
proof (cases "keys_in_order e api_key fallback_api_key use_fallback = []")
  case True
  then show ?thesis by (simp add: search_web_def)
next
  case False
  show ?thesis
  proof (cases "search_web_try e query (valid_search_type search_type) (clamp_num_results num_results)
                (keys_in_order e api_key fallback_api_key use_fallback) use_fallback")
    case (Raises ex)
    with False show ?thesis by (simp add: search_web_def)
  next
    case (Returns r)
    from search_web_try_recorded [OF Returns] Returns False show ?thesis
      by (simp add: search_web_def)
  qed
qed

lemma structured_results_recorded:
  "recorded (structured_results e query search_type num include_html items) = [(duration e, Some num)]
   \<and> exit_site (structured_results e query search_type num include_html items) \<in> {No_results, Success}"
  by (auto simp: structured_results_def split: prod.splits)

lemma structured_try_recorded:
  assumes "structured_try e query search_type num include_html keys use_fallback = Returns r"
  shows "recorded r = [(duration e, Some num)]
         \<and> exit_site r \<in> {Rate_limited, Request_failed, Api_status, No_results, Success}"
  using assms structured_results_recorded [of e query search_type num include_html]
  by (auto simp: structured_try_def split: if_splits outcome.splits prod.splits option.splits)

lemma structured_recorded:
  "exit_site (search_web_structured e query search_type num_results include_html api_key
       fallback_api_key use_fallback) = Exception_handler
   \<and> recorded (search_web_structured e query search_type num_results include_html api_key
       fallback_api_key use_fallback) = []
   \<or> exit_site (search_web_structured e query search_type num_results include_html api_key
       fallback_api_key use_fallback)
     \<in> {Rate_limited, Request_failed, Api_status, No_results, Success}
   \<and> recorded (search_web_structured e query search_type num_results include_html api_key
       fallback_api_key use_fallback) = [(duration e, Some (clamp_fetch_num num_results))]"
proof (cases "structured_try e query (valid_search_type search_type) (clamp_fetch_num num_results)
             include_html (keys_in_order e api_key fallback_api_key use_fallback) use_fallback")
  case (Raises ex)
  then show ?thesis by (simp add: search_web_structured_def)
next
  case (Returns r)
  from structured_try_recorded [OF Returns] Returns show ?thesis
    by (simp add: search_web_structured_def)
qed

lemma structured_no_key:
  assumes "keys_in_order e api_key fallback_api_key use_fallback = []"
    and "limiter_hit e = Returns True"
  shows "exit_site (search_web_structured e query search_type num_results include_html api_key
           fallback_api_key use_fallback) = Request_failed"
  using assms
  by (simp add: search_web_structured_def structured_try_def provider_request_def)

text \<open>The requests of a call agree with the \<open>return\<close> it leaves through: none
  when it returns for lack of a key or at the limiter, those of the key loop when it
  returns behind the loop.\<close>

lemma search_web_try_exit_allowed:
  assumes "limiter_hit e = Returns True"
    and "search_web_try e query search_type num keys u = Returns r"
  shows "exit_site r \<in> {Request_failed, Api_status, No_results, No_content, Success}"
  using assms search_web_results_recorded [of e query search_type num _ r]
  by (auto simp: search_web_try_def split: if_splits outcome.splits prod.splits option.splits)

lemma structured_try_exit_allowed:
  assumes "limiter_hit e = Returns True"
    and "structured_try e query search_type num include_html keys u = Returns r"
  shows "exit_site r \<in> {Request_failed, Api_status, No_results, Success}"
  using assms structured_results_recorded [of e query search_type num include_html]
  by (auto simp: structured_try_def split: if_splits outcome.splits prod.splits option.splits)

lemma search_web_posts_by_exit:
  "(exit_site (search_web e query search_type num_results api_key fallback_api_key use_fallback)
       \<in> {No_api_key, Rate_limited} \<longrightarrow>
      search_web_posts e query search_type num_results api_key fallback_api_key use_fallback = [])
   \<and> (exit_site (search_web e query search_type num_results api_key fallback_api_key use_fallback)
       \<in> {Request_failed, Api_status, No_results, No_content, Success} \<longrightarrow>
      search_web_posts e query search_type num_results api_key fallback_api_key use_fallback
        = snd (snd (provider_request e query (clamp_num_results num_results)
                      (valid_search_type search_type)
                      (keys_in_order e api_key fallback_api_key use_fallback) use_fallback)))"
proof (cases "keys_in_order e api_key fallback_api_key use_fallback = []")
  case True
  then show ?thesis by (simp add: search_web_def search_web_posts_def)
next
  case False
  show ?thesis
  proof (cases "limiter_hit e")
    case (Raises ex)
    with False show ?thesis
      by (simp add: search_web_def search_web_try_def search_web_posts_def)
  next
    case (Returns allowed)
    show ?thesis
    proof (cases allowed)
      case False
      with Returns \<open>keys_in_order e api_key fallback_api_key use_fallback \<noteq> []\<close> show ?thesis
        by (simp add: search_web_def search_web_try_def search_web_posts_def)
    next
      case True
      with Returns have lim: "limiter_hit e = Returns True" by simp
      show ?thesis
      proof (cases "search_web_try e query (valid_search_type search_type)
                      (clamp_num_results num_results)
                      (keys_in_order e api_key fallback_api_key use_fallback) use_fallback")
        case (Raises ex)
        with False lim show ?thesis by (simp add: search_web_def search_web_posts_def)
      next
        case (Returns r)
        from search_web_try_exit_allowed [OF lim Returns] Returns False lim show ?thesis
          by (auto simp: search_web_def search_web_posts_def)
      qed
    qed
  qed
qed

lemma structured_posts_by_exit:
  "(exit_site (search_web_structured e query search_type num_results include_html api_key
       fallback_api_key use_fallback) = Rate_limited \<longrightarrow>
      structured_posts e query search_type num_results api_key fallback_api_key use_fallback = [])
   \<and> (exit_site (search_web_structured e query search_type num_results include_html api_key
       fallback_api_key use_fallback) \<in> {Request_failed, Api_status, No_results, Success} \<longrightarrow>
      structured_posts e query search_type num_results api_key fallback_api_key use_fallback
        = snd (snd (provider_request e query (clamp_fetch_num num_results)
                      (valid_search_type search_type)
                      (keys_in_order e api_key fallback_api_key use_fallback) use_fallback)))"
proof (cases "limiter_hit e")
  case (Raises ex)
  then show ?thesis
    by (simp add: search_web_structured_def structured_try_def structured_posts_def)
next
  case (Returns allowed)
  show ?thesis
  proof (cases allowed)
    case False
    with Returns show ?thesis
      by (simp add: search_web_structured_def structured_try_def structured_posts_def)
  next
    case True
    with Returns have lim: "limiter_hit e = Returns True" by simp
    show ?thesis
    proof (cases "structured_try e query (valid_search_type search_type)
                    (clamp_fetch_num num_results) include_html
                    (keys_in_order e api_key fallback_api_key use_fallback) use_fallback")
      case (Raises ex)
      with lim show ?thesis by (simp add: search_web_structured_def structured_posts_def)
    next
      case (Returns r)
      from structured_try_exit_allowed [OF lim Returns] Returns lim show ?thesis
        by (auto simp: search_web_structured_def structured_posts_def)
    qed
  qed
qed

text \<open>
  C1, as the claim has it, at one input: the provider answers 200 with a body that is
  not JSON, so \<open>resp.json()\<close> raises inside \<open>search_web_structured\<close>. The call returns
  the report of the catch-all handler (\<open>error = "exception"\<close>) and has made no call of
  \<open>record_request\<close>.
\<close>

theorem structured_exception_not_recorded:
  "dict_get (returned (search_web_structured (demo_env (Returns html_page)) ''q'' ''search''
       (Some 4) True None None True)) ''error'' = Some (PyStr ''exception'')
   \<and> recorded (search_web_structured (demo_env (Returns html_page)) ''q'' ''search''
       (Some 4) True None None True) = []"
  by (simp add: search_web_structured_def structured_try_def provider_request_def demo_env_def
        html_page_def keys_in_order_def primary_keys_def fb_key_def or_else_def truthy_def
        failure_report_def dict_get_def)

text \<open>
  C1, amended. \<open>search_web\<close>: without a usable key it records once, with \<open>0.0\<close> and the
  argument \<open>num_results\<close> as given; when it returns a rate-limit, request-failure,
  status, no-results or no-content message it has recorded once, with the elapsed time
  and the clamped count. \<open>search_web_structured\<close>: when it returns a rate-limit,
  request-failure (which includes the empty key chain), status or no-results report it
  has recorded once, with the elapsed time and its effective count; when it returns from
  its catch-all handler it has recorded nothing.
\<close>

theorem record_request_paths:
  "(keys_in_order e api_key fallback_api_key use_fallback = [] \<longrightarrow>
      exit_site (search_web e query search_type num_results api_key fallback_api_key use_fallback)
        = No_api_key
      \<and> recorded (search_web e query search_type num_results api_key fallback_api_key use_fallback)
        = [(0, num_results)])
   \<and> (exit_site (search_web e query search_type num_results api_key fallback_api_key use_fallback)
        \<in> {Rate_limited, Request_failed, Api_status, No_results, No_content} \<longrightarrow>
      recorded (search_web e query search_type num_results api_key fallback_api_key use_fallback)
        = [(duration e, Some (clamp_num_results num_results))])
   \<and> (exit_site (search_web_structured e query search_type num_results include_html api_key
          fallback_api_key use_fallback)
        \<in> {Rate_limited, Request_failed, Api_status, No_results} \<longrightarrow>
      recorded (search_web_structured e query search_type num_results include_html api_key
          fallback_api_key use_fallback)
        = [(duration e, Some (clamp_fetch_num num_results))])
   \<and> (exit_site (search_web_structured e query search_type num_results include_html api_key
          fallback_api_key use_fallback) = Exception_handler \<longrightarrow>
      recorded (search_web_structured e query search_type num_results include_html api_key
          fallback_api_key use_fallback) = [])"
proof -
  have a: "keys_in_order e api_key fallback_api_key use_fallback = [] \<longrightarrow>
      exit_site (search_web e query search_type num_results api_key fallback_api_key use_fallback)
        = No_api_key
      \<and> recorded (search_web e query search_type num_results api_key fallback_api_key use_fallback)
        = [(0, num_results)]"
    by (simp add: search_web_def)
  from a search_web_recorded [of e query search_type num_results api_key fallback_api_key use_fallback]
    structured_recorded [of e query search_type num_results include_html api_key fallback_api_key
      use_fallback]
  show ?thesis by auto
qed

theorem record_request_paths_witness:
  "recorded (search_web (demo_env (Returns (status_response 404))) ''q'' ''search'' (Some 35)
      None None True) = [(3, Some 20)]
   \<and> recorded (search_web_structured (demo_env (Returns (status_response 404))) ''q'' ''search''
      (Some 35) True None None True) = [(3, Some 20)]"
proof -
  let ?e = "demo_env (Returns (status_response 404))"
  have s1: "exit_site (search_web ?e ''q'' ''search'' (Some 35) None None True) = Api_status"
    by (simp add: search_web_def search_web_try_def provider_request_def demo_env_def
          status_response_def keys_in_order_def primary_keys_def fb_key_def or_else_def truthy_def
          fallback_statuses_def)
  have s2: "exit_site (search_web_structured ?e ''q'' ''search'' (Some 35) True None None True)
              = Api_status"
    by (simp add: search_web_structured_def structured_try_def provider_request_def demo_env_def
          status_response_def keys_in_order_def primary_keys_def fb_key_def or_else_def truthy_def
          fallback_statuses_def)
  have d: "duration ?e = 3" by (simp add: duration_def demo_env_def)
  have c: "clamp_num_results (Some 35) = 20 \<and> clamp_fetch_num (Some 35) = 20"
    by (simp add: clamp_num_results_def clamp_fetch_num_def)
  from record_request_paths [of ?e None None True "''q''" "''search''" "Some 35" True] s1 s2
  show ?thesis unfolding d by (simp add: c)
qed

subsection \<open>Content extraction\<close>

lemma dropWhile_rev_keeps_head:
  assumes "dropWhile P xs = xs"
  shows "dropWhile P (rev (dropWhile P (rev xs))) = rev (dropWhile P (rev xs))"
proof (cases xs)
  case Nil
  then show ?thesis by simp
next
  case (Cons x xs')
  with assms have nP: "\<not> P x" by (metis dropWhile.simps(2) dropWhile_eq_Cons_conv list.inject)
  have "\<exists>ys. dropWhile P (rev xs' @ [x]) = ys @ [x]"
    using nP by (auto simp: dropWhile_append)
  then obtain ys where "dropWhile P (rev xs) = ys @ [x]" using Cons by auto
  then show ?thesis using nP by simp
qed

lemma strip_strip: "strip (strip s) = strip s"
proof -
  let ?t = "dropWhile is_space s"
  have "dropWhile is_space ?t = ?t" by (rule dropWhile_idem)
  then have a: "dropWhile is_space (strip s) = strip s"
    unfolding strip_def by (rule dropWhile_rev_keeps_head)
  have b: "dropWhile is_space (rev (strip s)) = rev (strip s)"
    unfolding strip_def by (simp add: dropWhile_idem)
  show ?thesis
    unfolding strip_def [of "strip s"] a b by simp
qed

lemma strip_Nil_all_space:
  assumes "strip s = []"
  shows "\<forall>c\<in>set s. is_space c"
proof -
  let ?t = "dropWhile is_space s"
  from assms have "dropWhile is_space (rev ?t) = []" by (simp add: strip_def)
  then have all: "\<forall>c\<in>set ?t. is_space c" by (simp add: dropWhile_eq_Nil_conv)
  have "?t = []"
  proof (cases ?t)
    case Nil
    then show ?thesis .
  next
    case (Cons a as)
    then have "\<not> is_space a" by (metis dropWhile_eq_Cons_conv)
    with all Cons show ?thesis by simp
  qed
  then show ?thesis by (simp add: dropWhile_eq_Nil_conv)
qed

lemma sub_tags_all_space: "\<forall>c\<in>set s. is_space c \<Longrightarrow> sub_tags s = s"
  by (induction s) (auto simp: is_space_def)

lemma collapse_all_space:
  "\<forall>c\<in>set s. is_space c \<Longrightarrow> collapse_ws s = (if s = [] then [] else '' '')"
  by (cases s) (auto simp: dropWhile_eq_Nil_conv [THEN iffD2])

lemma naive_text_blank: "strip html = [] \<Longrightarrow> naive_text html = []"
proof -
  assume "strip html = []"
  then have all: "\<forall>c\<in>set html. is_space c" by (rule strip_Nil_all_space)
  have "strip '' '' = []" by (simp add: strip_def is_space_def)
  moreover have "strip [] = []" by (simp add: strip_def)
  ultimately show ?thesis
    by (simp add: naive_text_def sub_tags_all_space [OF all] collapse_all_space [OF all])
qed

lemma strip_naive_text: "strip (naive_text s) = naive_text s"
  by (simp add: naive_text_def strip_strip)

lemma robust_extract_falls_back:
  assumes "case trafilatura_extract e html (if url = [] then None else Some url) of
             Raises ex \<Rightarrow> True | Returns None \<Rightarrow> True | Returns (Some t) \<Rightarrow> strip t = []"
  shows "robust_extract_main_text e html url = Returns (naive_text html)"
  using assms
  by (auto simp: robust_extract_main_text_def naive_text_blank split: outcome.splits option.splits)

lemma structured_cleaned_not_html:
  assumes "\<not> looks_like_html response"
  shows "structured_cleaned e url response =
           (if naive_text (resp_text response) = [] then None
            else Some (naive_text (resp_text response)))"
  using assms by (simp add: structured_cleaned_def strip_naive_text)

lemma dict_get_cleaned_text:
  "dict_get (fst (structured_item e search_type include_html pos meta (Returns response)))
       ''cleaned_text''
     = Some (PyStr (case structured_cleaned e (get_str meta ''link'' []) response of
                      None \<Rightarrow> []
                    | Some c \<Rightarrow> c))"
  by (simp add: structured_item_def base_item_def dict_get_def Let_def split: option.splits)

lemma plain_page_not_html: "\<not> looks_like_html plain_page"
  by (simp add: looks_like_html_def content_type_of_def plain_page_def get_str_def lower_def
        lower_char_def)

text \<open>
  C5, as the claim has it, at one input: a page served as \<open>text/plain\<close> whose body
  \<open>plain words\<close> does not look like HTML. The gate rejects it, and the item of
  \<open>search_web_structured\<close> has \<open>cleaned_text = "plain words"\<close>, not the empty string.
\<close>

theorem non_html_cleaned_text_counterexample:
  "\<not> looks_like_html plain_page
   \<and> dict_get (fst (structured_item (demo_env (Raises [])) ''search'' True 0 hit_b
        (Returns plain_page))) ''cleaned_text'' = Some (PyStr ''plain words'')
   \<and> dict_get (fst (structured_item (demo_env (Raises [])) ''search'' True 0 hit_b
        (Returns plain_page))) ''cleaned_text'' \<noteq> Some (PyStr [])"
proof -
  have n: "naive_text (resp_text plain_page) = ''plain words''"
    by (simp add: naive_text_def plain_page_def strip_def is_space_def)
  show ?thesis
    by (simp add: plain_page_not_html dict_get_cleaned_text structured_cleaned_not_html n)
qed

text \<open>
  C5, amended. For a fetched response that the gate rejects (the content type does not
  contain \<open>text/html\<close> and the first 1000 characters do not contain \<open><html\<close>), the
  readability extraction is skipped; \<open>search_web\<close> gets no body for the item, and the
  item of \<open>search_web_structured\<close> has as \<open>cleaned_text\<close> the naive tag-stripped,
  whitespace-collapsed text of the response body (empty only when that text is empty).
  For every body on which the readability extraction raises or yields nothing, an empty
  or a whitespace-only string, \<open>_robust_extract_main_text\<close> returns the naive
  tag-stripped, whitespace-collapsed text of the body.
\<close>

theorem extraction_gate:
  "(\<not> looks_like_html response \<longrightarrow>
       search_web_body e meta response = None
     \<and> dict_get (fst (structured_item e search_type include_html pos meta (Returns response)))
           ''cleaned_text''
         = Some (PyStr (naive_text (resp_text response))))
   \<and> ((case trafilatura_extract e html (if url = [] then None else Some url) of
          Raises ex \<Rightarrow> True | Returns None \<Rightarrow> True | Returns (Some t) \<Rightarrow> strip t = [])
       \<longrightarrow> robust_extract_main_text e html url = Returns (naive_text html))"
  using robust_extract_falls_back [of e html url]
  by (auto simp: dict_get_cleaned_text structured_cleaned_not_html search_web_body_def)

theorem extraction_gate_witness:
  "search_web_body ((demo_env (Raises []))\<lparr>trafilatura_extract := (\<lambda>html url. Returns (Some '' ''))\<rparr>)
       hit_b plain_page = None
   \<and> dict_get (fst (structured_item
         ((demo_env (Raises []))\<lparr>trafilatura_extract := (\<lambda>html url. Returns (Some '' ''))\<rparr>)
         ''search'' True 0 hit_b (Returns plain_page))) ''cleaned_text'' = Some (PyStr ''plain words'')
   \<and> robust_extract_main_text
       ((demo_env (Raises []))\<lparr>trafilatura_extract := (\<lambda>html url. Returns (Some '' ''))\<rparr>)
       ''<div><p>Hi  there</p></div>'' ''http://b.example/x'' = Returns ''Hi there''"
proof -
  let ?e = "(demo_env (Raises []))\<lparr>trafilatura_extract := (\<lambda>html url. Returns (Some '' ''))\<rparr>"
  have t: "(case trafilatura_extract ?e ''<div><p>Hi  there</p></div>''
                   (if ''http://b.example/x'' = [] then None else Some ''http://b.example/x'') of
              Raises ex \<Rightarrow> True | Returns None \<Rightarrow> True | Returns (Some t) \<Rightarrow> strip t = [])"
    by (simp add: demo_env_def strip_def is_space_def)
  have n: "naive_text ''<div><p>Hi  there</p></div>'' = ''Hi there''"
    by (simp add: naive_text_def strip_def is_space_def)
  have m: "naive_text (resp_text plain_page) = ''plain words''"
    by (simp add: naive_text_def plain_page_def strip_def is_space_def)
  from extraction_gate [of plain_page ?e hit_b "''search''" True 0
         "''<div><p>Hi  there</p></div>''" "''http://b.example/x''"]
       plain_page_not_html t
  show ?thesis unfolding n m by blast
qed

text \<open>
  C8. For every string \<open>html\<close>, every \<open>url\<close> and whatever \<open>trafilatura.extract\<close>
  does (raise, return \<open>None\<close>, return a string), \<open>_robust_extract_main_text\<close> returns a
  string and does not raise.
\<close>

theorem robust_extract_total: "\<exists>s. robust_extract_main_text e html url = Returns s"
  by (simp add: robust_extract_main_text_def Let_def)

subsection \<open>The per-item loops\<close>

lemma links_of_well_formed:
  "list_all well_formed_hit results \<Longrightarrow> links_of results = Returns (map link_of results)"
  by (induction results)
     (auto simp: well_formed_hit_def link_of_def get_str_def split: option.splits)

lemma search_web_chunk_well_formed:
  "well_formed_hit m \<Longrightarrow> \<exists>chunk. search_web_chunk e search_type m body = Returns chunk"
  by (auto simp: well_formed_hit_def search_web_chunk_def Let_def split: option.splits list.splits)

lemma search_web_loop_skips:
  "\<not> yields_content e (m, fetched) \<Longrightarrow>
     search_web_loop e search_type ((m, fetched) # pairs) chunks n
       = search_web_loop e search_type pairs chunks n"
  by (auto simp: yields_content_def split: outcome.splits option.splits)

lemma search_web_loop_completes:
  assumes "list_all well_formed_hit (map fst pairs)"
  shows "\<exists>cs. search_web_loop e search_type pairs chunks n = Returns (chunks @ cs, n + length cs)
              \<and> length cs = length (filter (yields_content e) pairs)"
  using assms
proof (induction pairs arbitrary: chunks n)
  case Nil
  then show ?case by simp
next
  case (Cons p pairs)
  obtain m fetched where p: "p = (m, fetched)" by (cases p)
  from Cons.prems have wf: "well_formed_hit m" and rest: "list_all well_formed_hit (map fst pairs)"
    using p by auto
  show ?case
  proof (cases "yields_content e p")
    case False
    then have "search_web_loop e search_type (p # pairs) chunks n
                 = search_web_loop e search_type pairs chunks n"
      using p search_web_loop_skips by simp
    with Cons.IH [OF rest, of chunks n] False show ?thesis by simp
  next
    case True
    then obtain response body where f: "fetched = Returns response"
      and b: "search_web_body e m response = Some body" and ne: "body \<noteq> []"
      using p by (auto simp: yields_content_def split: outcome.splits option.splits)
    obtain chunk where c: "search_web_chunk e search_type m body = Returns chunk"
      using search_web_chunk_well_formed [OF wf] by blast
    have step: "search_web_loop e search_type (p # pairs) chunks n
                 = search_web_loop e search_type pairs (chunks @ [chunk]) (Suc n)"
      using p f b ne c by simp
    obtain cs where "search_web_loop e search_type pairs (chunks @ [chunk]) (Suc n)
                       = Returns ((chunks @ [chunk]) @ cs, Suc n + length cs)"
      and "length cs = length (filter (yields_content e) pairs)"
      using Cons.IH [OF rest, of "chunks @ [chunk]" "Suc n"] by blast
    then have "search_web_loop e search_type (p # pairs) chunks n
                 = Returns (chunks @ (chunk # cs), n + length (chunk # cs))
               \<and> length (chunk # cs) = length (filter (yields_content e) (p # pairs))"
      using step True by simp
    then show ?thesis by blast
  qed
qed

lemma structured_loop_length:
  "length (fst (structured_loop e st ih pairs results_out n blocks))
     = length results_out + length pairs"
  by (induction pairs arbitrary: results_out n blocks) (auto split: prod.splits)

lemma structured_urls_all_links:
  "list_all (\<lambda>m. get_str m ''link'' [] \<noteq> []) items \<Longrightarrow> structured_urls items = map link_of items"
  by (induction items) (auto simp: get_str_def link_of_def split: option.splits)

text \<open>When every provider hit has a non-empty link, the loop of
  \<open>search_web_structured\<close> builds exactly one item per hit, whatever the fetches
  return.\<close>

theorem structured_results_length_all_links:
  assumes "list_all (\<lambda>m. get_str m ''link'' [] \<noteq> []) items"
  shows "length (fst (structured_loop e st ih
           (zip items (map (client_get e) (structured_urls items))) [] 0 [])) = length items"
  by (simp add: structured_loop_length structured_urls_all_links [OF assms])

theorem structured_results_length_all_links_witness:
  "length (fst (structured_loop (demo_env (Raises [])) ''search'' True
      (zip [hit_b, hit_c] (map (client_get (demo_env (Raises []))) (structured_urls [hit_b, hit_c])))
      [] 0 [])) = length [hit_b, hit_c]"
proof -
  have links: "list_all (\<lambda>m. get_str m ''link'' [] \<noteq> []) [hit_b, hit_c]"
    by (simp add: get_str_def hit_b_def hit_c_def)
  show ?thesis
    by (rule structured_results_length_all_links [OF links])
qed

text \<open>
  C6. The claim has the items of the structured report match the provider's hit list in
  length and order. At this input the provider returns two hits, \<open>A\<close> without a link
  and \<open>B\<close> with one. The URL list leaves \<open>A\<close> out, \<open>zip\<close> pairs hit \<open>A\<close> with the
  response fetched for \<open>B\<close> and stops: the report has one item, with the title of \<open>A\<close>
  and the page of \<open>B\<close>.
\<close>

theorem structured_results_misaligned:
  "dict_get (returned (search_web_structured (demo_env (Returns (hits_response [hit_a, hit_b])))
       ''q'' ''search'' (Some 5) True None None True)) ''results''
     = Some (PyList
         [PyDict
           [(''title'', PyStr ''A''), (''url'', PyStr []), (''domain'', PyStr []),
            (''date'', PyStr []), (''source'', PyStr []), (''status_code'', PyInt 200),
            (''fetched_at'', PyStr ''2024-05-01T12:00:00''),
            (''web_text_for_chunking'',
               PyStr (''## A'' @ nl @ ''**Domain:** '' @ nl @ ''**URL:** '' @ nl @ nl @ ''Page B'' @ nl)),
            (''cleaned_text'', PyStr ''Page B''),
            (''serper_style_text'',
               PyStr (''## A'' @ nl @ ''**Domain:** '' @ nl @ ''**URL:** '' @ nl @ nl @ ''Page B'' @ nl)),
            (''raw_html'', PyStr ''<html><body><p>Page B</p></body></html>'')]])"
proof -
  let ?e = "demo_env (Returns (hits_response [hit_a, hit_b]))"
  have urls: "structured_urls [hit_a, hit_b] = [''http://b.example/x'']"
    by (simp add: hit_a_def hit_b_def)
  have html: "looks_like_html html_page"
    by (simp add: looks_like_html_def content_type_of_def html_page_def get_str_def lower_def
          lower_char_def)
  have ex: "robust_extract_main_text ?e (resp_text html_page) [] = Returns ''Page B''"
    by (simp add: robust_extract_main_text_def demo_env_def html_page_def strip_def is_space_def)
  have cl: "structured_cleaned ?e [] html_page = Some ''Page B''"
    by (simp add: structured_cleaned_def html ex strip_def is_space_def)
  have item: "structured_item ?e ''search'' True 0 hit_a (Returns html_page) =
      ([(''title'', PyStr ''A''), (''url'', PyStr []), (''domain'', PyStr []),
        (''date'', PyStr []), (''source'', PyStr []), (''status_code'', PyInt 200),
        (''fetched_at'', PyStr ''2024-05-01T12:00:00''),
        (''web_text_for_chunking'',
           PyStr (''## A'' @ nl @ ''**Domain:** '' @ nl @ ''**URL:** '' @ nl @ nl @ ''Page B'' @ nl)),
        (''cleaned_text'', PyStr ''Page B''),
        (''serper_style_text'',
           PyStr (''## A'' @ nl @ ''**Domain:** '' @ nl @ ''**URL:** '' @ nl @ nl @ ''Page B'' @ nl)),
        (''raw_html'', PyStr ''<html><body><p>Page B</p></body></html>'')],
       True,
       Some (''## A'' @ nl @ ''**Domain:** '' @ nl @ ''**URL:** '' @ nl @ nl @ ''Page B'' @ nl))"
    unfolding structured_item_def
    by (simp add: Let_def hit_a_def get_str_def cl [unfolded hit_a_def get_str_def]
          base_item_def item_domain_def)
       (simp add: demo_env_def html_page_def)
  have get: "client_get ?e ''http://b.example/x'' = Returns html_page"
    by (simp add: demo_env_def)
  have hits: "json_hits [''organic'' \<mapsto> [hit_a, hit_b], ''news'' \<mapsto> [hit_a, hit_b]] ''search''
                = [hit_a, hit_b]"
    by (simp add: json_hits_def)
  have res: "dict_get (returned (structured_results ?e ''q'' ''search'' 5 True [hit_a, hit_b]))
               ''results''
             = Some (PyList [PyDict (fst (structured_item ?e ''search'' True 0 hit_a (Returns html_page)))])"
    unfolding structured_results_def urls
    by (simp add: get dict_get_def split: prod.splits)
  have call: "search_web_structured ?e ''q'' ''search'' (Some 5) True None None True
                = structured_results ?e ''q'' ''search'' 5 True [hit_a, hit_b]"
    by (simp add: search_web_structured_def structured_try_def provider_request_def
          valid_search_type_def clamp_fetch_num_def keys_in_order_def primary_keys_def fb_key_def
          or_else_def truthy_def demo_env_def hits_response_def hits)
  show ?thesis unfolding call res item by simp
qed

text \<open>
  Past a provider answer with hits that each have a title and a link
  \<open>scheme://host...\<close>, and whatever the fetches and the extractor do:
  \<open>search_web\<close> returns the no-content message exactly when no item gave a non-empty
  body and the digest otherwise, and an item whose fetch failed or that gave no body
  leaves the state of its loop as it was; \<open>search_web_structured\<close> returns its report
  with no \<open>error\<close> key and with one item for every pair of hit and fetch outcome.
\<close>

lemma well_formed_hits_complete:
  assumes "results \<noteq> []" and "list_all well_formed_hit results"
  shows "(\<exists>r. search_web_results e query search_type num results = Returns r
            \<and> exit_site r =
                (if filter (yields_content e) (zip results (map (client_get e) (map link_of results))) = []
                 then No_content else Success))
       \<and> (\<forall>m fetched pairs chunks n. \<not> yields_content e (m, fetched) \<longrightarrow>
             search_web_loop e search_type ((m, fetched) # pairs) chunks n
               = search_web_loop e search_type pairs chunks n)
       \<and> exit_site (structured_results e query search_type num include_html results) = Success
       \<and> ''error'' \<notin> set (dict_keys (returned
             (structured_results e query search_type num include_html results)))
       \<and> dict_get (returned (structured_results e query search_type num include_html results))
             ''results''
           = Some (PyList (map PyDict (fst (structured_loop e search_type include_html
                (zip results (map (client_get e) (structured_urls results))) [] 0 []))))
       \<and> length (fst (structured_loop e search_type include_html
                (zip results (map (client_get e) (structured_urls results))) [] 0 []))
           = length (zip results (map (client_get e) (structured_urls results)))"
proof -
  let ?pairs = "zip results (map (client_get e) (map link_of results))"
  have wf: "list_all well_formed_hit (map fst ?pairs)"
    using assms(2) by (simp add: list_all_iff map_fst_zip)
  obtain cs where loop: "search_web_loop e search_type ?pairs [] 0 = Returns ([] @ cs, 0 + length cs)"
    and len: "length cs = length (filter (yields_content e) ?pairs)"
    using search_web_loop_completes [OF wf, of e search_type "[]" 0] by blast
  have a: "\<exists>r. search_web_results e query search_type num results = Returns r
            \<and> exit_site r = (if filter (yields_content e) ?pairs = [] then No_content else Success)"
    using assms(1) loop len
    by (auto simp: search_web_results_def links_of_well_formed [OF assms(2)])
  have b: "\<forall>m fetched pairs chunks n. \<not> yields_content e (m, fetched) \<longrightarrow>
             search_web_loop e search_type ((m, fetched) # pairs) chunks n
               = search_web_loop e search_type pairs chunks n"
    using search_web_loop_skips by blast
  have c: "exit_site (structured_results e query search_type num include_html results) = Success
       \<and> ''error'' \<notin> set (dict_keys (returned
             (structured_results e query search_type num include_html results)))
       \<and> dict_get (returned (structured_results e query search_type num include_html results))
             ''results''
           = Some (PyList (map PyDict (fst (structured_loop e search_type include_html
                (zip results (map (client_get e) (structured_urls results))) [] 0 []))))"
    using assms(1) by (auto simp: structured_results_def dict_keys_def dict_get_def split: prod.splits)
  from a b c structured_loop_length [of e search_type include_html _ "[]" 0 "[]"]
  show ?thesis by simp
qed

lemma well_formed_hits_complete_example:
  "(\<exists>r. search_web_results (demo_env (Raises [])) ''q'' ''search'' 5 [hit_b, hit_c] = Returns r
         \<and> exit_site r = Success)
   \<and> exit_site (structured_results (demo_env (Raises [])) ''q'' ''search'' 5 True [hit_b, hit_c])
       = Success"
proof -
  let ?e = "demo_env (Raises [])"
  have ne: "[hit_b, hit_c] \<noteq> []" by simp
  have wf: "list_all well_formed_hit [hit_b, hit_c]"
    by (simp add: well_formed_hit_def hit_b_def hit_c_def)
  have html: "looks_like_html html_page"
    by (simp add: looks_like_html_def content_type_of_def html_page_def get_str_def lower_def
          lower_char_def)
  have ex: "robust_extract_main_text ?e (resp_text html_page) ''http://b.example/x''
              = Returns ''Page B''"
    by (simp add: robust_extract_main_text_def demo_env_def html_page_def strip_def is_space_def)
  have body: "search_web_body ?e hit_b html_page = Some ''Page B''"
    by (simp add: search_web_body_def html hit_b_def get_str_def
          ex [unfolded hit_b_def get_str_def])
  have yb: "yields_content ?e (hit_b, Returns html_page)"
    by (simp add: yields_content_def body)
  have gets: "client_get ?e (link_of hit_b) = Returns html_page
              \<and> client_get ?e (link_of hit_c) = Raises ''All connection attempts failed''"
    by (simp add: demo_env_def link_of_def get_str_def hit_b_def hit_c_def)
  have some: "filter (yields_content ?e)
                (zip [hit_b, hit_c] (map (client_get ?e) (map link_of [hit_b, hit_c]))) \<noteq> []"
    by (simp add: gets yb)
  from well_formed_hits_complete [OF ne wf, of ?e "''q''" "''search''" 5 True] some
  show ?thesis by simp
qed

text \<open>
  C7. The claim has a call fail as a whole only when no item yields usable content. At
  this input the provider returns two hits whose pages are both fetched and extracted;
  the second hit has a link and no title. In \<open>search_web\<close> the first item has given
  its content when \<open>meta['title']\<close> of the second raises \<open>KeyError\<close>, which no
  handler inside the loop catches: the call returns the message of its catch-all
  handler. \<open>search_web_structured\<close>, which reads the title with \<open>meta.get\<close>,
  returns its report for the same input.
\<close>

theorem search_web_missing_title_fails_call:
  "yields_content (open_env (Returns (hits_response [hit_b, hit_untitled])))
      (hit_b, client_get (open_env (Returns (hits_response [hit_b, hit_untitled]))) (link_of hit_b))
   \<and> search_web (open_env (Returns (hits_response [hit_b, hit_untitled]))) ''q'' ''search'' (Some 5)
        None None True
       = \<lparr>returned = ''Error occurred while searching: '' @ key_error ''title''
                      @ ''. Please try again or check your query.'',
          exit_site = Exception_handler,
          recorded = []\<rparr>
   \<and> exit_site (search_web_structured (open_env (Returns (hits_response [hit_b, hit_untitled])))
        ''q'' ''search'' (Some 5) True None None True) = Success"
proof -
  let ?e = "open_env (Returns (hits_response [hit_b, hit_untitled]))"
  have html: "looks_like_html html_page"
    by (simp add: looks_like_html_def content_type_of_def html_page_def get_str_def lower_def
          lower_char_def)
  have ex: "\<And>url. robust_extract_main_text ?e (resp_text html_page) url = Returns ''Page B''"
    by (simp add: robust_extract_main_text_def open_env_def demo_env_def html_page_def strip_def
          is_space_def)
  have body: "\<And>m. search_web_body ?e m html_page = Some ''Page B''"
    by (simp add: search_web_body_def html ex)
  have get: "\<And>url. client_get ?e url = Returns html_page"
    by (simp add: open_env_def demo_env_def)
  have y: "yields_content ?e (hit_b, client_get ?e (link_of hit_b))"
    by (simp add: yields_content_def get body)
  have links: "links_of [hit_b, hit_untitled] = Returns [''http://b.example/x'', ''http://d.example/y'']"
    by (simp add: hit_b_def hit_untitled_def)
  have cb: "\<exists>chunk. search_web_chunk ?e ''search'' hit_b ''Page B'' = Returns chunk"
    by (rule search_web_chunk_well_formed) (simp add: well_formed_hit_def hit_b_def)
  have cu: "search_web_chunk ?e ''search'' hit_untitled ''Page B'' = Raises (key_error ''title'')"
    by (simp add: search_web_chunk_def hit_untitled_def)
  have loop: "search_web_loop ?e ''search''
                (zip [hit_b, hit_untitled]
                   (map (client_get ?e) [''http://b.example/x'', ''http://d.example/y''])) [] 0
              = Raises (key_error ''title'')"
  proof -
    from cb obtain chunk where c: "search_web_chunk ?e ''search'' hit_b ''Page B'' = Returns chunk"
      by blast
    have g1: "client_get ?e ''http://b.example/x'' = Returns html_page"
      and g2: "client_get ?e ''http://d.example/y'' = Returns html_page"
      by (rule get)+
    show ?thesis
      by (simp add: g1 g2 body c cu)
  qed
  have res: "search_web_results ?e ''q'' ''search'' 5 [hit_b, hit_untitled]
               = Raises (key_error ''title'')"
    unfolding search_web_results_def links outcome.case loop by simp
  have hits: "json_hits [''organic'' \<mapsto> [hit_b, hit_untitled], ''news'' \<mapsto> [hit_b, hit_untitled]]
                ''search'' = [hit_b, hit_untitled]"
    by (simp add: json_hits_def)
  have lim: "limiter_hit ?e = Returns True" by (simp add: open_env_def demo_env_def)
  have keys: "keys_in_order ?e None None True = [''primary'', ''secondary'']"
    by (simp add: keys_in_order_def primary_keys_def fb_key_def or_else_def truthy_def
          open_env_def demo_env_def)
  have req: "\<And>num. provider_request ?e ''q'' num ''search'' [''primary'', ''secondary''] True
               = (Some (hits_response [hit_b, hit_untitled]), None, [''primary''])"
    by (simp add: provider_request_def open_env_def demo_env_def hits_response_def)
  have js: "resp_json (hits_response [hit_b, hit_untitled])
              = Returns [''organic'' \<mapsto> [hit_b, hit_untitled], ''news'' \<mapsto> [hit_b, hit_untitled]]
            \<and> status_code (hits_response [hit_b, hit_untitled]) = 200"
    by (simp add: hits_response_def)
  have args: "valid_search_type ''search'' = ''search'' \<and> clamp_num_results (Some 5) = 5
              \<and> clamp_fetch_num (Some 5) = 5"
    by (simp add: valid_search_type_def clamp_num_results_def clamp_fetch_num_def)
  have w: "search_web ?e ''q'' ''search'' (Some 5) None None True
       = \<lparr>returned = ''Error occurred while searching: '' @ key_error ''title''
                      @ ''. Please try again or check your query.'',
          exit_site = Exception_handler,
          recorded = []\<rparr>"
    by (simp add: search_web_def search_web_try_def keys args lim req js hits res)
  have s: "search_web_structured ?e ''q'' ''search'' (Some 5) True None None True
             = structured_results ?e ''q'' ''search'' 5 True [hit_b, hit_untitled]"
    by (simp add: search_web_structured_def structured_try_def keys args lim req js hits)
  have ss: "exit_site (structured_results ?e ''q'' ''search'' 5 True [hit_b, hit_untitled]) = Success"
    by (simp add: structured_results_def split: prod.splits)
  from y w s ss show ?thesis by simp
qed

subsection \<open>Dates of news items\<close>

lemma dict_get_date:
  "dict_get (fst (structured_item e search_type include_html pos meta fetched)) ''date''
     = Some (PyStr (if search_type = ''news'' then get_str meta ''date'' [] else []))"
  by (cases fetched)
     (simp_all add: structured_item_def base_item_def dict_get_def Let_def split: option.splits)

text \<open>
  C9, as the claim has it, at two inputs of \<open>search_web_structured\<close> in news mode. A hit
  dated \<open>2 hours ago\<close>, which the parser would turn into \<open>2024-05-01\<close>, gives an item
  whose date is \<open>2 hours ago\<close>; a hit without a date gives an item whose date is the
  empty string, not \<open>Unknown\<close>.
\<close>

theorem structured_news_date_counterexample:
  "dateparser_parse (demo_env (Raises [])) ''2 hours ago'' = Returns ''2024-05-01''
   \<and> dict_get (fst (structured_item (demo_env (Raises [])) ''news'' True 0 hit_news
        (Returns html_page))) ''date'' = Some (PyStr ''2 hours ago'')
   \<and> dict_get (fst (structured_item (demo_env (Raises [])) ''news'' True 0 hit_b
        (Returns html_page))) ''date'' = Some (PyStr [])
   \<and> dict_get (fst (structured_item (demo_env (Raises [])) ''news'' True 0 hit_b
        (Returns html_page))) ''date'' \<noteq> Some (PyStr ''Unknown'')"
  by (simp add: dict_get_date get_str_def hit_news_def hit_b_def demo_env_def)

text \<open>
  C9, amended. In \<open>search_web\<close>, the block of a news item carries as its date the
  provider's raw date string parsed (fuzzily) and formatted as \<open>%Y-%m-%d\<close>, and
  \<open>Unknown\<close> when the raw date is absent or empty or the parser raises. In
  \<open>search_web_structured\<close>, the item of a news hit records the provider's raw date
  string as it came, and the empty string when it is absent; it is not parsed.
\<close>

theorem news_item_date:
  "(\<forall>chunk. search_web_chunk e ''news'' meta body = Returns chunk \<longrightarrow>
      chunk = ''## '' @ get_str meta ''title'' [] @ nl
                @ ''**Source:** '' @ get_str meta ''source'' ''Unknown'' @ ''   ''
                @ ''**Date:** ''
                @ (case meta ''date'' of
                     None \<Rightarrow> ''Unknown''
                   | Some d \<Rightarrow>
                       if d = [] then ''Unknown''
                       else (case dateparser_parse e d of
                               Raises ex \<Rightarrow> ''Unknown''
                             | Returns parsed \<Rightarrow> parsed))
                @ nl @ ''**URL:** '' @ get_str meta ''link'' [] @ nl @ nl @ strip body @ nl)
   \<and> dict_get (fst (structured_item e ''news'' include_html pos meta fetched)) ''date''
       = Some (PyStr (case meta ''date'' of None \<Rightarrow> [] | Some d \<Rightarrow> d))"
  by (auto simp: search_web_chunk_def news_date_iso_def dict_get_date get_str_def Let_def
           split: option.splits outcome.splits)

theorem news_item_date_witness:
  "search_web_chunk (demo_env (Raises [])) ''news'' hit_news ''Body''
     = Returns (''## N'' @ nl @ ''**Source:** Unknown   **Date:** 2024-05-01'' @ nl
                  @ ''**URL:** http://b.example/x'' @ nl @ nl @ ''Body'' @ nl)"
proof -
  let ?e = "demo_env (Raises [])"
  have r: "\<exists>chunk. search_web_chunk ?e ''news'' hit_news ''Body'' = Returns chunk"
    by (rule search_web_chunk_well_formed) (simp add: well_formed_hit_def hit_news_def)
  then obtain chunk where c: "search_web_chunk ?e ''news'' hit_news ''Body'' = Returns chunk"
    by blast
  from news_item_date [of ?e hit_news "''Body''" True 0 "Raises []"] c
  have "chunk = ''## '' @ get_str hit_news ''title'' [] @ nl
                @ ''**Source:** '' @ get_str hit_news ''source'' ''Unknown'' @ ''   ''
                @ ''**Date:** ''
                @ (case hit_news ''date'' of
                     None \<Rightarrow> ''Unknown''
                   | Some d \<Rightarrow>
                       if d = [] then ''Unknown''
                       else (case dateparser_parse ?e d of
                               Raises ex \<Rightarrow> ''Unknown''
                             | Returns parsed \<Rightarrow> parsed))
                @ nl @ ''**URL:** '' @ get_str hit_news ''link'' [] @ nl @ nl @ strip ''Body'' @ nl"
    by blast
  then show ?thesis
    unfolding c by (simp add: hit_news_def get_str_def demo_env_def strip_def is_space_def)
qed

subsection \<open>Shape of the structured report\<close>

lemma failure_report_keys:
  "dict_keys (failure_report q st summary err)
     = [''query'', ''search_type'', ''results'', ''summary'', ''error'']
   \<and> dict_get (failure_report q st summary err) ''results'' = Some (PyList [])"
  by (simp add: failure_report_def dict_keys_def dict_get_def)

lemma structured_results_shape:
  "set [''query'', ''search_type'', ''results'', ''summary'']
     \<subseteq> set (dict_keys (returned (structured_results e q st num ih items)))
   \<and> (exit_site (structured_results e q st num ih items) \<noteq> Success \<longrightarrow>
        dict_get (returned (structured_results e q st num ih items)) ''results'' = Some (PyList [])
        \<and> ''error'' \<in> set (dict_keys (returned (structured_results e q st num ih items))))"
proof (cases "items = []")
  case True
  then show ?thesis by (simp add: structured_results_def failure_report_keys)
next
  case False
  then show ?thesis by (simp add: structured_results_def dict_keys_def split: prod.splits)
qed

lemma structured_try_shape:
  assumes "structured_try e q st num ih keys u = Returns r"
  shows "set [''query'', ''search_type'', ''results'', ''summary''] \<subseteq> set (dict_keys (returned r))
   \<and> (exit_site r \<noteq> Success \<longrightarrow>
        dict_get (returned r) ''results'' = Some (PyList [])
        \<and> ''error'' \<in> set (dict_keys (returned r)))"
proof (cases "\<exists>body. r = structured_results e q st num ih body")
  case True
  then show ?thesis using structured_results_shape by blast
next
  case False
  with assms show ?thesis
    by (auto simp: structured_try_def failure_report_keys
             split: if_splits outcome.splits prod.splits option.splits)
qed

text \<open>
  C10. Whatever the environment and the arguments, the dict returned by
  \<open>search_web_structured\<close> has the keys \<open>query\<close>, \<open>search_type\<close>, \<open>results\<close> and
  \<open>summary\<close>; when it is returned by any \<open>return\<close> other than the final one (rate
  limit, request failure, status, no hits, catch-all handler), \<open>results\<close> is the empty
  list and the key \<open>error\<close> is present.
\<close>

theorem structured_report_shape:
  "set [''query'', ''search_type'', ''results'', ''summary'']
     \<subseteq> set (dict_keys (returned
           (search_web_structured e query search_type num_results include_html api_key
              fallback_api_key use_fallback)))
   \<and> (exit_site (search_web_structured e query search_type num_results include_html api_key
          fallback_api_key use_fallback) \<noteq> Success \<longrightarrow>
        dict_get (returned
           (search_web_structured e query search_type num_results include_html api_key
              fallback_api_key use_fallback)) ''results'' = Some (PyList [])
        \<and> ''error'' \<in> set (dict_keys (returned
           (search_web_structured e query search_type num_results include_html api_key
              fallback_api_key use_fallback))))"
proof (cases "structured_try e query (valid_search_type search_type) (clamp_fetch_num num_results)
             include_html (keys_in_order e api_key fallback_api_key use_fallback) use_fallback")
  case (Raises ex)
  then show ?thesis by (simp add: search_web_structured_def failure_report_keys)
next
  case (Returns r)
  from structured_try_shape [OF Returns] Returns show ?thesis
    by (simp add: search_web_structured_def)
qed

theorem structured_report_shape_witness:
  "dict_get (returned (search_web_structured ((demo_env (Raises []))\<lparr>limiter_hit := Returns False\<rparr>)
       ''q'' ''news'' None True None None True)) ''results'' = Some (PyList [])
   \<and> ''error'' \<in> set (dict_keys (returned
       (search_web_structured ((demo_env (Raises []))\<lparr>limiter_hit := Returns False\<rparr>)
          ''q'' ''news'' None True None None True)))"
proof -
  let ?e = "(demo_env (Raises []))\<lparr>limiter_hit := Returns False\<rparr>"
  have s: "exit_site (search_web_structured ?e ''q'' ''news'' None True None None True) \<noteq> Success"
    by (simp add: search_web_structured_def structured_try_def demo_env_def)
  from structured_report_shape [of ?e "''q''" "''news''" None True None None True] s
  show ?thesis by blast
qed

end
